theory Spec2Isabelle
  imports Main "HOL-Library.Word" "HOL-Library.Sublist"
begin

section \<open>Data model\<close>

text \<open>
  The development embeds \<^verbatim>\<open>Storages/StorageMergeTreeIndex.cpp\<close>: the chunk generator
  \<^verbatim>\<open>MergeTreeIndexSource::generate\<close>, its helper \<^verbatim>\<open>fillMarks\<close>, and
  \<^verbatim>\<open>StorageMergeTreeIndex::getFilteredDataParts\<close>.

  A column is modelled by the sequence of its row values, the view that
  \<^verbatim>\<open>IColumn::operator[]\<close> gives. Unsigned 64-bit numbers (\<^verbatim>\<open>UInt64\<close>, \<^verbatim>\<open>size_t\<close>) are
  64-bit words.
\<close>

datatype field = Null | UInt64 "64 word" | Str string | Tuple "field list"

type_synonym column = "field list"

datatype data_type =
    DataTypeUInt64
  | DataTypeString
  | DataTypeNullable data_type
  | DataTypeTuple "data_type list"

record column_with_type =
  cname :: string
  ctype :: data_type

type_synonym block = "column_with_type list"

datatype part_type = Wide | Compact | InMemory | Unknown

text \<open>
  A data part, restricted to what the source file reads from it: \<^verbatim>\<open>part->name\<close>,
  \<^verbatim>\<open>part->getType()\<close>, \<^verbatim>\<open>part->index_granularity\<close> (the row count of every mark),
  \<^verbatim>\<open>part->index\<close> (one column per primary-key component), \<^verbatim>\<open>part->getColumns()\<close>
  (the names, in order) and the answer of
  \<^verbatim>\<open>part->getStreamNameOrHash(column_name, part->checksums)\<close>, which is taken as given.
\<close>

record data_part =
  name :: string
  ptype :: part_type
  index_granularity :: "64 word list"
  index :: "column list"
  columns :: "string list"
  stream_names :: "string \<Rightarrow> string option"

record mark_in_compressed_file =
  offset_in_compressed_file :: "64 word"
  offset_in_decompressed_block :: "64 word"

text \<open>
  A marks loader is identified by the arguments \<^verbatim>\<open>createMarksLoader\<close> passes to its
  constructor: the part, the prefix of the marks file and the number of columns per mark.
\<close>

record marks_loader =
  loader_part :: string
  prefix_name :: string
  num_columns :: nat

datatype loader_event =
    CreateMarksLoader marks_loader
  | GetMark marks_loader nat nat

datatype ast = ASTSelectQuery "string option" | ASTOther

text \<open>
  The collaborators whose code is outside this file are parameters of the model:
  \<^verbatim>\<open>unescapeForFileName\<close>, \<^verbatim>\<open>MergeTreeMarksLoader::getMark\<close> (the mark stored for a row
  and a column position; failures of the loader itself are outside the model),
  \<^verbatim>\<open>VirtualColumnUtils::filterBlockWithQuery\<close> (from a query and the rows of the
  single-column block of part names to the rows that remain) and \<^verbatim>\<open>Context::checkAccess\<close>
  (whether the select on the given columns of the source table is granted).
\<close>

record env =
  unescapeForFileName :: "string \<Rightarrow> string"
  getMark :: "marks_loader \<Rightarrow> nat \<Rightarrow> nat \<Rightarrow> mark_in_compressed_file"
  filterBlockWithQuery :: "ast \<Rightarrow> string list \<Rightarrow> string list"
  checkAccess :: "string list \<Rightarrow> bool"

text \<open>
  The first two errors are the exceptions the source file throws. The next four are
  raised by code it calls: \<^verbatim>\<open>Block::getPositionByName\<close> for a missing name, the
  constructor of \<^verbatim>\<open>Chunk\<close> for a column of the wrong length, the resolution of the
  requested names for an unknown one, and the access check. The last three stand for
  undefined behaviour of the source: reading \<^verbatim>\<open>part->index\<close> out of range, calling
  through a null loader, and overflowing a signed integer. A computation returns an
  error or a value, together with the loader calls it made.
\<close>

datatype error =
    NO_SUCH_COLUMN_IN_TABLE string
  | NOT_IMPLEMENTED string
  | NOT_FOUND_COLUMN_IN_BLOCK string
  | LOGICAL_ERROR
  | UNKNOWN_COLUMN string
  | ACCESS_DENIED
  | INDEX_OUT_OF_RANGE nat
  | NULL_MARKS_LOADER
  | SIGNED_INTEGER_OVERFLOW

type_synonym 'a result = "(error + 'a) \<times> loader_event list"

record chunk =
  chunk_columns :: "column list"
  chunk_num_rows :: nat

record source =
  header :: block
  index_header :: block
  data_parts :: "data_part list"
  with_marks :: bool
  part_index :: nat

text \<open>
  The members of \<^verbatim>\<open>StorageMergeTreeIndex\<close> that \<^verbatim>\<open>read\<close> uses: the parts and the primary-key
  sample block captured by the constructor, the flag, and, of the source table, the
  answer of \<^verbatim>\<open>hasColumnOrSubcolumn(GetColumnsOptions::All, name)\<close> on its columns.
\<close>

record storage =
  storage_data_parts :: "data_part list"
  key_sample_block :: block
  storage_with_marks :: bool
  hasColumnOrSubcolumn :: "string \<Rightarrow> bool"

section \<open>Helpers of the surrounding code base\<close>

fun position_of :: "'a \<Rightarrow> 'a list \<Rightarrow> nat option" where
  "position_of x [] = None"
| "position_of x (y # ys) = (if x = y then Some 0 else map_option Suc (position_of x ys))"

definition has :: "block \<Rightarrow> string \<Rightarrow> bool" where
  "has blk n = (n \<in> set (map cname blk))"

definition getPositionByName :: "block \<Rightarrow> string \<Rightarrow> error + nat" where
  "getPositionByName blk n =
     (case position_of n (map cname blk) of
        None \<Rightarrow> Inl (NOT_FOUND_COLUMN_IN_BLOCK n)
      | Some p \<Rightarrow> Inr p)"

definition getMarksCount :: "64 word list \<Rightarrow> nat" where
  "getMarksCount g = length g"

definition getMarkRows :: "64 word list \<Rightarrow> nat \<Rightarrow> 64 word" where
  "getMarkRows g i = g ! i"

definition isWidePart :: "data_part \<Rightarrow> bool" where
  "isWidePart p = (ptype p = Wide)"

definition isCompactPart :: "data_part \<Rightarrow> bool" where
  "isCompactPart p = (ptype p = Compact)"

fun typeToString :: "part_type \<Rightarrow> string" where
  "typeToString Wide = ''Wide''"
| "typeToString Compact = ''Compact''"
| "typeToString InMemory = ''InMemory''"
| "typeToString Unknown = ''Unknown''"

definition getTypeName :: "data_part \<Rightarrow> string" where
  "getTypeName p = typeToString (ptype p)"

definition getStreamNameOrHash :: "data_part \<Rightarrow> string \<Rightarrow> string option" where
  "getStreamNameOrHash p column_name = stream_names p column_name"

text \<open>
  Modelled from the spec: \<^verbatim>\<open>IMergeTreeDataPart::getColumnPosition\<close> is not in this file.
  The position of a column is its ordinal index within the part's column list, and there
  is none for a name the list does not hold.
\<close>

definition getColumnPosition :: "data_part \<Rightarrow> string \<Rightarrow> nat option" where
  "getColumnPosition p column_name = position_of column_name (columns p)"

text \<open>
  Modelled from the spec: \<^verbatim>\<open>Nested::splitName\<close> is not in this file. It is the
  nested-name decomposition: the name is cut at its first dot, or at its last dot when
  \<open>reverse\<close> is set, and a name with no dot, or with the dot at either end, is returned
  whole with an empty second component.
\<close>

definition splitName :: "string \<Rightarrow> bool \<Rightarrow> string \<times> string" where
  "splitName n reverse =
     (case (if reverse
            then map_option (\<lambda>k. length n - 1 - k) (position_of (CHR ''.'') (rev n))
            else position_of (CHR ''.'') n) of
        None \<Rightarrow> (n, [])
      | Some idx \<Rightarrow>
          if idx = 0 \<or> idx + 1 = length n then (n, [])
          else (take idx n, drop (idx + 1) n))"

text \<open>
  Modelled from the spec: the default value of a declared type (\<^verbatim>\<open>IDataType::getDefault\<close>
  is not in this file). The default of a tuple type is a tuple, the tuple of its
  elements' defaults (the spec's non-null default tuple), and the default of a nullable
  type is null (the spec's all-null bookmark column).
\<close>

fun getDefault :: "data_type \<Rightarrow> field" where
  "getDefault DataTypeUInt64 = UInt64 0"
| "getDefault DataTypeString = Str []"
| "getDefault (DataTypeNullable t) = Null"
| "getDefault (DataTypeTuple ts) = Tuple (map getDefault ts)"

text \<open>
  \<^verbatim>\<open>createColumnConst(n, v)->convertToFullColumnIfConst()\<close>: \<open>n\<close> rows holding \<open>v\<close>.
\<close>

definition createColumnConst :: "nat \<Rightarrow> field \<Rightarrow> column" where
  "createColumnConst n v = replicate n v"

definition createColumnConstWithDefaultValue :: "data_type \<Rightarrow> nat \<Rightarrow> column" where
  "createColumnConstWithDefaultValue t n = createColumnConst n (getDefault t)"

text \<open>
  \<^verbatim>\<open>ColumnNullable::create(nested, null_map)\<close>: row \<open>i\<close> is null where the null map holds a
  non-zero byte and the nested value where it holds zero.
\<close>

definition ColumnNullable_create :: "column \<Rightarrow> 8 word list \<Rightarrow> column" where
  "ColumnNullable_create nested null_map =
     map (\<lambda>(v, m). if m = 0 then v else Null) (zip nested null_map)"

text \<open>\<^verbatim>\<open>ColumnTuple::create(columns)\<close>: row \<open>i\<close> is the tuple of the columns' rows \<open>i\<close>.\<close>

definition ColumnTuple_create :: "column list \<Rightarrow> column" where
  "ColumnTuple_create cols =
     (case cols of
        [] \<Rightarrow> []
      | c # _ \<Rightarrow> map (\<lambda>i. Tuple (map (\<lambda>col. col ! i) cols)) [0..<length c])"

definition DATA_FILE_NAME :: string where
  "DATA_FILE_NAME = ''data''"

section \<open>MergeTreeIndexSource\<close>

definition part_name_column :: column_with_type where
  "part_name_column = \<lparr>cname = ''part_name'', ctype = DataTypeString\<rparr>"

definition mark_number_column :: column_with_type where
  "mark_number_column = \<lparr>cname = ''mark_number'', ctype = DataTypeUInt64\<rparr>"

definition rows_in_granule_column :: column_with_type where
  "rows_in_granule_column = \<lparr>cname = ''rows_in_granule'', ctype = DataTypeUInt64\<rparr>"

definition MergeTreeIndexSource ::
  "block \<Rightarrow> block \<Rightarrow> data_part list \<Rightarrow> bool \<Rightarrow> source" where
  "MergeTreeIndexSource hdr ih parts wm =
     \<lparr>header = hdr, index_header = ih, data_parts = parts,
      with_marks = wm, part_index = 0\<rparr>"

definition createMarksLoader :: "data_part \<Rightarrow> string \<Rightarrow> nat \<Rightarrow> marks_loader" where
  "createMarksLoader p pfx n =
     \<lparr>loader_part = name p, prefix_name = pfx, num_columns = n\<rparr>"

text \<open>
  \<^verbatim>\<open>fillMarks\<close>. The first part decides, by the layout of the part, whether the column has
  marks, at which position, and in which loader; the second reads one mark per row.
  The loader handed in by \<^verbatim>\<open>generate\<close> may be the null pointer; calling \<^verbatim>\<open>getMark\<close>
  through it is the error \<open>NULL_MARKS_LOADER\<close>.
\<close>

definition locateMarks ::
  "env \<Rightarrow> data_part \<Rightarrow> marks_loader option \<Rightarrow> string
     \<Rightarrow> error + (nat \<times> bool \<times> marks_loader option \<times> loader_event list)" where
  "locateMarks e p loader column_name =
     (if isWidePart p then
        (case getStreamNameOrHash p column_name of
           Some stream_name \<Rightarrow>
             Inr (0, True, Some (createMarksLoader p stream_name 1),
                  [CreateMarksLoader (createMarksLoader p stream_name 1)])
         | None \<Rightarrow> Inr (0, False, loader, []))
      else if isCompactPart p then
        (case getColumnPosition p (unescapeForFileName e column_name) of
           Some col_idx \<Rightarrow> Inr (col_idx, True, loader, [])
         | None \<Rightarrow> Inr (0, False, loader, []))
      else Inl (NOT_IMPLEMENTED (getTypeName p)))"

definition fillMarks ::
  "env \<Rightarrow> data_part \<Rightarrow> marks_loader option \<Rightarrow> data_type \<Rightarrow> string \<Rightarrow> column result" where
  "fillMarks e p loader t column_name =
     (let num_rows = getMarksCount (index_granularity p) in
      case locateMarks e p loader column_name of
        Inl err \<Rightarrow> (Inl err, [])
      | Inr (col_idx, has_marks_in_part, marks_loader, ev) \<Rightarrow>
          if \<not> has_marks_in_part
          then (Inr (createColumnConstWithDefaultValue t num_rows), ev)
          else
            (case marks_loader of
               None \<Rightarrow> (Inl NULL_MARKS_LOADER, ev)
             | Some l \<Rightarrow>
                 let marks = map (\<lambda>i. getMark e l i col_idx) [0..<num_rows];
                     compressed = map (\<lambda>m. UInt64 (offset_in_compressed_file m)) marks;
                     uncompressed = map (\<lambda>m. UInt64 (offset_in_decompressed_block m)) marks;
                     compressed_nullable =
                       ColumnNullable_create compressed (replicate num_rows 0);
                     uncompressed_nullable =
                       ColumnNullable_create uncompressed (replicate num_rows 0)
                 in (Inr (ColumnTuple_create [compressed_nullable, uncompressed_nullable]),
                     ev @ map (\<lambda>i. GetMark l i col_idx) [0..<num_rows])))"

text \<open>
  \<^verbatim>\<open>std::iota(data.begin(), data.end(), 0)\<close> over \<open>n\<close> elements: the counter has the type
  of the literal \<open>0\<close>, a (32-bit) \<^verbatim>\<open>int\<close>. Each step stores the counter, converted to
  \<^verbatim>\<open>UInt64\<close>, and increments it; incrementing it at \<open>INT_MAX\<close> is undefined in the source,
  and the model makes it the error \<open>SIGNED_INTEGER_OVERFLOW\<close>.
\<close>

definition INT_MAX :: int where
  "INT_MAX = 2147483647"

fun iota :: "nat \<Rightarrow> int \<Rightarrow> error + 64 word list" where
  "iota 0 v = Inr []"
| "iota (Suc n) v =
     (if INT_MAX \<le> v then Inl SIGNED_INTEGER_OVERFLOW
      else case iota n (v + 1) of
             Inl err \<Rightarrow> Inl err
           | Inr data \<Rightarrow> Inr (of_int v # data))"

text \<open>
  The body of the loop of \<^verbatim>\<open>generate\<close> over the positions of the header. Reading
  \<^verbatim>\<open>part->index\<close> at a position the part's index does not have is undefined in the
  source; the model makes it the error \<open>INDEX_OUT_OF_RANGE\<close>.
\<close>

definition fillColumn ::
  "env \<Rightarrow> block \<Rightarrow> bool \<Rightarrow> data_part \<Rightarrow> marks_loader option \<Rightarrow> column_with_type
     \<Rightarrow> column result" where
  "fillColumn e ih wm p loader h =
     (let column_name = cname h;
          column_type = ctype h;
          num_rows = getMarksCount (index_granularity p)
      in
        if has ih column_name then
          (case getPositionByName ih column_name of
             Inl err \<Rightarrow> (Inl err, [])
           | Inr index_position \<Rightarrow>
               if index_position < length (index p)
               then (Inr (index p ! index_position), [])
               else (Inl (INDEX_OUT_OF_RANGE index_position), []))
        else if column_name = cname part_name_column then
          (Inr (createColumnConst num_rows (Str (name p))), [])
        else if column_name = cname mark_number_column then
          (case iota num_rows 0 of
             Inl err \<Rightarrow> (Inl err, [])
           | Inr data \<Rightarrow> (Inr (map UInt64 data), []))
        else if column_name = cname rows_in_granule_column then
          (Inr (map (\<lambda>i. UInt64 (getMarkRows (index_granularity p) i)) [0..<num_rows]), [])
        else if wm \<and> snd (splitName column_name True) = ''mark'' then
          fillMarks e p loader column_type (fst (splitName column_name True))
        else (Inl (NO_SUCH_COLUMN_IN_TABLE column_name), []))"

fun fillColumns ::
  "env \<Rightarrow> block \<Rightarrow> bool \<Rightarrow> data_part \<Rightarrow> marks_loader option \<Rightarrow> block
     \<Rightarrow> column list result" where
  "fillColumns e ih wm p loader [] = (Inr [], [])"
| "fillColumns e ih wm p loader (h # hs) =
     (case fillColumn e ih wm p loader h of
        (Inl err, ev) \<Rightarrow> (Inl err, ev)
      | (Inr c, ev) \<Rightarrow>
          (case fillColumns e ih wm p loader hs of
             (Inl err, ev') \<Rightarrow> (Inl err, ev @ ev')
           | (Inr cs, ev') \<Rightarrow> (Inr (c # cs), ev @ ev')))"

text \<open>The loader \<^verbatim>\<open>generate\<close> creates up front, for a compact part of a source with marks.\<close>

definition sharedMarksLoader :: "bool \<Rightarrow> data_part \<Rightarrow> marks_loader option" where
  "sharedMarksLoader wm p =
     (if wm \<and> isCompactPart p
      then Some (createMarksLoader p DATA_FILE_NAME (length (columns p)))
      else None)"

definition empty_chunk :: chunk where
  "empty_chunk = \<lparr>chunk_columns = [], chunk_num_rows = 0\<rparr>"

text \<open>
  Modelled from the spec: the constructor \<^verbatim>\<open>Chunk(columns, num_rows)\<close> is not in this file.
  A chunk is a fixed-width, fixed-height batch of columns: the constructor refuses
  columns whose length differs from \<open>num_rows\<close>.
\<close>

definition Chunk :: "column list \<Rightarrow> nat \<Rightarrow> error + chunk" where
  "Chunk cols num_rows =
     (if list_all (\<lambda>c. length c = num_rows) cols
      then Inr \<lparr>chunk_columns = cols, chunk_num_rows = num_rows\<rparr>
      else Inl LOGICAL_ERROR)"

text \<open>
  \<^verbatim>\<open>generate\<close>. An exception ends the read, so the state after one is not modelled.
\<close>

definition generate :: "env \<Rightarrow> source \<Rightarrow> (chunk \<times> source) result" where
  "generate e s =
     (if part_index s \<ge> length (data_parts s) then (Inr (empty_chunk, s), [])
      else
        let p = data_parts s ! part_index s;
            marks_loader = sharedMarksLoader (with_marks s) p;
            ev0 = (case marks_loader of None \<Rightarrow> [] | Some l \<Rightarrow> [CreateMarksLoader l]);
            num_rows = getMarksCount (index_granularity p)
        in
          case fillColumns e (index_header s) (with_marks s) p marks_loader (header s) of
            (Inl err, ev) \<Rightarrow> (Inl err, ev0 @ ev)
          | (Inr result_columns, ev) \<Rightarrow>
              (case Chunk result_columns num_rows of
                 Inl err \<Rightarrow> (Inl err, ev0 @ ev)
               | Inr c \<Rightarrow> (Inr (c, s\<lparr>part_index := part_index s + 1\<rparr>), ev0 @ ev)))"

text \<open>
  \<open>pulls e n s\<close> calls \<^verbatim>\<open>generate\<close> \<open>n\<close> times in a row and collects the chunks it
  returns and the loader calls made; an exception ends the read.
\<close>

fun pulls :: "env \<Rightarrow> nat \<Rightarrow> source \<Rightarrow> (chunk list \<times> source) result" where
  "pulls e 0 s = (Inr ([], s), [])"
| "pulls e (Suc n) s =
     (case generate e s of
        (Inl err, ev) \<Rightarrow> (Inl err, ev)
      | (Inr (c, s'), ev) \<Rightarrow>
          (case pulls e n s' of
             (Inl err, ev') \<Rightarrow> (Inl err, ev @ ev')
           | (Inr (cs, s''), ev') \<Rightarrow> (Inr (c # cs, s''), ev @ ev')))"

section \<open>StorageMergeTreeIndex::getFilteredDataParts\<close>

text \<open>
  The result is the filtered part list, together with the part-name blocks that were
  built and handed to the filter evaluator.
\<close>

definition getFilteredDataParts ::
  "env \<Rightarrow> data_part list \<Rightarrow> ast \<Rightarrow> data_part list \<times> string list list" where
  "getFilteredDataParts e parts query =
     (case query of
        ASTOther \<Rightarrow> (parts, [])
      | ASTSelectQuery None \<Rightarrow> (parts, [])
      | ASTSelectQuery (Some w) \<Rightarrow>
          let all_part_names = map name parts;
              filtered_block = filterBlockWithQuery e query all_part_names
          in if length filtered_block = 0 then ([], [all_part_names])
             else
               let part_names_set = set filtered_block
               in (filter (\<lambda>p. name p \<in> part_names_set) parts, [all_part_names]))"

section \<open>StorageMergeTreeIndex::read\<close>

text \<open>
  Modelled from the spec: the declared type of a mark pseudo-column, a two-element
  structure of two nullable unsigned 64-bit fields (the declaration is not in this file).
\<close>

definition mark_type :: data_type where
  "mark_type = DataTypeTuple [DataTypeNullable DataTypeUInt64, DataTypeNullable DataTypeUInt64]"

text \<open>
  Modelled from the spec: \<^verbatim>\<open>StorageSnapshot::getSampleBlockForColumns\<close> is not in this file.
  It is the schema resolver: a name matching a primary-key component resolves to that
  component, with its stored type; a name that is exactly one of the three metadata
  names resolves to that column; with marks enabled, a name whose nested-name
  decomposition ends in \<open>mark\<close> resolves to a mark pseudo-column of the declared mark type;
  any other name fails with the unknown-column error naming it. The resolution of a list
  is all or nothing.
\<close>

definition resolveColumn :: "block \<Rightarrow> bool \<Rightarrow> string \<Rightarrow> error + column_with_type" where
  "resolveColumn key wm n =
     (case find (\<lambda>c. cname c = n) key of
        Some c \<Rightarrow> Inr c
      | None \<Rightarrow>
          if n = cname part_name_column then Inr part_name_column
          else if n = cname mark_number_column then Inr mark_number_column
          else if n = cname rows_in_granule_column then Inr rows_in_granule_column
          else if wm \<and> snd (splitName n True) = ''mark''
          then Inr \<lparr>cname = n, ctype = mark_type\<rparr>
          else Inl (UNKNOWN_COLUMN n))"

fun getSampleBlockForColumns :: "storage \<Rightarrow> string list \<Rightarrow> error + block" where
  "getSampleBlockForColumns st [] = Inr []"
| "getSampleBlockForColumns st (n # ns) =
     (case resolveColumn (key_sample_block st) (storage_with_marks st) n of
        Inl err \<Rightarrow> Inl err
      | Inr c \<Rightarrow>
          (case getSampleBlockForColumns st ns of
             Inl err \<Rightarrow> Inl err
           | Inr cs \<Rightarrow> Inr (c # cs)))"

text \<open>
  The first loop of \<^verbatim>\<open>read\<close>: the columns of the source table the request touches, which
  are handed to the access check. A name that is neither a column of the source table
  nor, with marks enabled, the mark pseudo-column of one is skipped.
\<close>

fun columns_from_storage :: "env \<Rightarrow> storage \<Rightarrow> string list \<Rightarrow> string list" where
  "columns_from_storage e st [] = []"
| "columns_from_storage e st (column_name # rest) =
     (if hasColumnOrSubcolumn st column_name
      then column_name # columns_from_storage e st rest
      else if storage_with_marks st
              \<and> snd (splitName column_name True) = ''mark''
              \<and> hasColumnOrSubcolumn st
                  (unescapeForFileName e
                     (unescapeForFileName e (fst (splitName column_name True))))
      then unescapeForFileName e (fst (splitName column_name True))
           # columns_from_storage e st rest
      else columns_from_storage e st rest)"

text \<open>
  \<^verbatim>\<open>read\<close>: the access check, the header, the filtered parts, and the source built from
  them. It makes no loader call.
\<close>

definition read :: "env \<Rightarrow> storage \<Rightarrow> string list \<Rightarrow> ast \<Rightarrow> error + source" where
  "read e st column_names query =
     (if \<not> checkAccess e (columns_from_storage e st column_names) then Inl ACCESS_DENIED
      else
        case getSampleBlockForColumns st column_names of
          Inl err \<Rightarrow> Inl err
        | Inr hdr \<Rightarrow>
            let filtered_parts = fst (getFilteredDataParts e (storage_data_parts st) query)
            in Inr (MergeTreeIndexSource hdr (key_sample_block st) filtered_parts
                      (storage_with_marks st)))"

text \<open>
  A read followed by \<open>k\<close> calls of \<^verbatim>\<open>generate\<close> on the source it returns: the chunks
  emitted and the loader calls made.
\<close>

definition read_and_pull ::
  "env \<Rightarrow> storage \<Rightarrow> string list \<Rightarrow> ast \<Rightarrow> nat \<Rightarrow> chunk list result" where
  "read_and_pull e st column_names query k =
     (case read e st column_names query of
        Inl err \<Rightarrow> (Inl err, [])
      | Inr s \<Rightarrow>
          (case pulls e k s of
             (Inl err, ev) \<Rightarrow> (Inl err, ev)
           | (Inr (cs, s'), ev) \<Rightarrow> (Inr cs, ev)))"

section \<open>Vocabulary of the properties\<close>

text \<open>
  The names \<^verbatim>\<open>generate\<close> accepts: a column of the index header, one of the three metadata
  columns, or, with marks enabled, a name whose last component is \<open>mark\<close>.
\<close>

definition is_metadata_column :: "string \<Rightarrow> bool" where
  "is_metadata_column n =
     (n = cname part_name_column \<or> n = cname mark_number_column
      \<or> n = cname rows_in_granule_column)"

definition is_mark_column :: "block \<Rightarrow> bool \<Rightarrow> string \<Rightarrow> bool" where
  "is_mark_column ih wm n =
     (\<not> has ih n \<and> \<not> is_metadata_column n \<and> wm \<and> snd (splitName n True) = ''mark'')"

definition known_column :: "block \<Rightarrow> bool \<Rightarrow> string \<Rightarrow> bool" where
  "known_column ih wm n = (has ih n \<or> is_metadata_column n \<or> is_mark_column ih wm n)"

text \<open>
  A known name materialises for a part when, for an index column, the part's stored
  index holds the column, for the mark number, the part has no more than \<open>INT_MAX\<close>
  marks, and, for a mark pseudo-column, the part is wide or compact.
\<close>

definition materializes :: "block \<Rightarrow> bool \<Rightarrow> data_part \<Rightarrow> string \<Rightarrow> bool" where
  "materializes ih wm p n =
     (if has ih n then
        (case getPositionByName ih n of Inl err \<Rightarrow> False | Inr pos \<Rightarrow> pos < length (index p))
      else if is_metadata_column n then
        (n = cname mark_number_column \<longrightarrow>
           int (getMarksCount (index_granularity p)) \<le> INT_MAX)
      else is_mark_column ih wm n \<and> (isWidePart p \<or> isCompactPart p))"


text \<open>The chunk of a part: its height, its width and its columns, position by position.\<close>

definition is_chunk_of ::
  "env \<Rightarrow> block \<Rightarrow> block \<Rightarrow> bool \<Rightarrow> data_part \<Rightarrow> chunk \<Rightarrow> bool" where
  "is_chunk_of e hdr ih wm p c =
     (chunk_num_rows c = getMarksCount (index_granularity p)
      \<and> length (chunk_columns c) = length hdr
      \<and> list_all2
           (\<lambda>col h. fst (fillColumn e ih wm p (sharedMarksLoader wm p) h) = Inr col)
           (chunk_columns c) hdr)"

section \<open>A sample table\<close>

definition sample_env :: env where
  "sample_env =
     \<lparr>unescapeForFileName = (\<lambda>n. n),
      getMark = (\<lambda>l i j. \<lparr>offset_in_compressed_file = of_nat (100 * i + j),
                          offset_in_decompressed_block = of_nat (7 * j)\<rparr>),
      filterBlockWithQuery = (\<lambda>q names. filter (\<lambda>n. n = ''P2'') names),
      checkAccess = (\<lambda>names. True)\<rparr>"

definition sample_P1 :: data_part where
  "sample_P1 =
     \<lparr>name = ''P1'', ptype = Wide, index_granularity = [1, 2, 1],
      index = [[UInt64 10, UInt64 20, UInt64 30]], columns = [''id'', ''v''],
      stream_names = (\<lambda>n. if n = ''id'' then Some ''id'' else None)\<rparr>"

definition sample_P2 :: data_part where
  "sample_P2 =
     \<lparr>name = ''P2'', ptype = Compact, index_granularity = [5],
      index = [[UInt64 40]], columns = [''id'', ''v''],
      stream_names = (\<lambda>n. None)\<rparr>"

definition sample_P3 :: data_part where
  "sample_P3 =
     \<lparr>name = ''P3'', ptype = InMemory, index_granularity = [4, 4],
      index = [[UInt64 50, UInt64 60]], columns = [''id''],
      stream_names = (\<lambda>n. None)\<rparr>"

definition sample_index_header :: block where
  "sample_index_header = [\<lparr>cname = ''id'', ctype = DataTypeUInt64\<rparr>]"

definition sample_metadata_source :: source where
  "sample_metadata_source =
     MergeTreeIndexSource [mark_number_column, rows_in_granule_column, part_name_column]
       sample_index_header [sample_P1] False"


definition sample_compact_source :: source where
  "sample_compact_source =
     MergeTreeIndexSource
       [\<lparr>cname = ''id'', ctype = DataTypeUInt64\<rparr>, \<lparr>cname = ''v.mark'', ctype = mark_type\<rparr>,
        \<lparr>cname = ''w.mark'', ctype = mark_type\<rparr>]
       sample_index_header [sample_P2] True"

definition sample_unsupported_source :: source where
  "sample_unsupported_source =
     MergeTreeIndexSource [\<lparr>cname = ''id'', ctype = DataTypeUInt64\<rparr>, part_name_column]
       sample_index_header [sample_P3] True"

definition sample_unsupported_marks_source :: source where
  "sample_unsupported_marks_source =
     MergeTreeIndexSource
       [\<lparr>cname = ''id'', ctype = DataTypeUInt64\<rparr>, \<lparr>cname = ''id.mark'', ctype = mark_type\<rparr>]
       sample_index_header [sample_P3] True"

definition sample_storage :: storage where
  "sample_storage =
     \<lparr>storage_data_parts = [sample_P1, sample_P2], key_sample_block = sample_index_header,
      storage_with_marks = True,
      hasColumnOrSubcolumn = (\<lambda>n. n = ''id'' \<or> n = ''v'')\<rparr>"

definition sample_empty_storage :: storage where
  "sample_empty_storage =
     \<lparr>storage_data_parts = [], key_sample_block = sample_index_header,
      storage_with_marks = True,
      hasColumnOrSubcolumn = (\<lambda>n. n = ''id'' \<or> n = ''v'')\<rparr>"

definition sample_huge_part :: data_part where
  "sample_huge_part =
     \<lparr>name = ''P4'', ptype = Wide, index_granularity = replicate 2147483649 1,
      index = [replicate 2147483649 (UInt64 0)], columns = [''id''],
      stream_names = (\<lambda>n. if n = ''id'' then Some ''id'' else None)\<rparr>"

definition sample_huge_source :: source where
  "sample_huge_source =
     MergeTreeIndexSource [mark_number_column] sample_index_header [sample_huge_part] False"


definition sample_single_storage :: storage where
  "sample_single_storage =
     \<lparr>storage_data_parts = [sample_P1], key_sample_block = sample_index_header,
      storage_with_marks = True,
      hasColumnOrSubcolumn = (\<lambda>n. n = ''id'' \<or> n = ''v'')\<rparr>"

section \<open>Properties\<close>

subsection \<open>One chunk per part\<close>

lemma fillColumns_Inr:
  "fst (fillColumns e ih wm p l hs) = Inr cs \<Longrightarrow>
     list_all2 (\<lambda>col h. fst (fillColumn e ih wm p l h) = Inr col) cs hs"
proof (induction hs arbitrary: cs)
  case Nil
  then show ?case by simp
next
  case (Cons h hs)
  obtain r ev where h1: "fillColumn e ih wm p l h = (r, ev)" by (cases "fillColumn e ih wm p l h")
  obtain r' ev' where h2: "fillColumns e ih wm p l hs = (r', ev')" by (cases "fillColumns e ih wm p l hs")
  from Cons.prems h1 h2 obtain c cs' where
    "r = Inr c" "r' = Inr cs'" "cs = c # cs'"
    by (cases r; cases r') auto
  with Cons.IH[of cs'] h1 h2 show ?case by simp
qed


lemma fillMarks_ok:
  "isWidePart p \<or> (isCompactPart p \<and> l \<noteq> None) \<Longrightarrow> \<exists>c. fst (fillMarks e p l t n) = Inr c"
  by (auto simp: fillMarks_def locateMarks_def Let_def split: option.splits)


lemma fillColumn_index:
  "has ih (cname h) \<Longrightarrow> getPositionByName ih (cname h) = Inr pos \<Longrightarrow> pos < length (index p) \<Longrightarrow>
     fillColumn e ih wm p l h = (Inr (index p ! pos), [])"
  by (simp add: fillColumn_def)

lemma fillColumn_part_name:
  "\<not> has ih (cname h) \<Longrightarrow> cname h = ''part_name'' \<Longrightarrow>
     fillColumn e ih wm p l h =
       (Inr (replicate (length (index_granularity p)) (Str (name p))), [])"
  by (simp add: fillColumn_def part_name_column_def createColumnConst_def getMarksCount_def)

lemma iota_closed:
  "v \<le> INT_MAX \<Longrightarrow>
     iota n v = (if v + int n \<le> INT_MAX
                 then Inr (map (\<lambda>i. of_int (v + int i)) [0..<n])
                 else Inl SIGNED_INTEGER_OVERFLOW)"
proof (induction n arbitrary: v)
  case 0
  then show ?case by simp
next
  case (Suc n)
  show ?case
  proof (cases "INT_MAX \<le> v")
    case True
    then show ?thesis by simp
  next
    case False
    then have le: "v + 1 \<le> INT_MAX" by simp
    have u: "[0..<Suc n] = 0 # map Suc [0..<n]"
      by (simp add: upt_conv_Cons map_Suc_upt del: upt_Suc)
    have m: "map (\<lambda>i. of_int (v + int i) :: 64 word) [0..<Suc n]
               = of_int v # map (\<lambda>i. of_int (v + 1 + int i)) [0..<n]"
      unfolding u by (simp add: comp_def add.assoc add.commute)
    have c: "v + int (Suc n) \<le> INT_MAX \<longleftrightarrow> v + 1 + int n \<le> INT_MAX"
      by (simp add: algebra_simps)
    show ?thesis
      unfolding m c using False Suc.IH[OF le] by simp
  qed
qed

lemma iota_in_range:
  "int n \<le> INT_MAX \<Longrightarrow> iota n 0 = Inr (map of_nat [0..<n])"
  by (simp add: iota_closed INT_MAX_def)

lemma iota_overflow:
  "INT_MAX < int n \<Longrightarrow> iota n 0 = Inl SIGNED_INTEGER_OVERFLOW"
  by (simp add: iota_closed INT_MAX_def)

lemma fillColumn_mark_number:
  "\<not> has ih (cname h) \<Longrightarrow> cname h = ''mark_number'' \<Longrightarrow>
   int (length (index_granularity p)) \<le> INT_MAX \<Longrightarrow>
     fillColumn e ih wm p l h =
       (Inr (map (\<lambda>i. UInt64 (of_nat i)) [0..<length (index_granularity p)]), [])"
  by (simp add: fillColumn_def part_name_column_def mark_number_column_def getMarksCount_def
      iota_in_range comp_def)

lemma fillColumn_mark_number_overflow:
  "\<not> has ih (cname h) \<Longrightarrow> cname h = ''mark_number'' \<Longrightarrow>
   INT_MAX < int (length (index_granularity p)) \<Longrightarrow>
     fillColumn e ih wm p l h = (Inl SIGNED_INTEGER_OVERFLOW, [])"
  by (simp add: fillColumn_def part_name_column_def mark_number_column_def getMarksCount_def
      iota_overflow)

lemma fillColumn_rows_in_granule:
  "\<not> has ih (cname h) \<Longrightarrow> cname h = ''rows_in_granule'' \<Longrightarrow>
     fillColumn e ih wm p l h =
       (Inr (map (\<lambda>i. UInt64 (index_granularity p ! i)) [0..<length (index_granularity p)]), [])"
  by (simp add: fillColumn_def part_name_column_def mark_number_column_def
      rows_in_granule_column_def getMarksCount_def getMarkRows_def)

lemma fillColumn_mark:
  "is_mark_column ih wm (cname h) \<Longrightarrow>
     fillColumn e ih wm p l h = fillMarks e p l (ctype h) (fst (splitName (cname h) True))"
  by (simp add: fillColumn_def is_mark_column_def is_metadata_column_def)


lemma sharedMarksLoader_compact:
  "wm \<Longrightarrow> isCompactPart p \<Longrightarrow> sharedMarksLoader wm p \<noteq> None"
  by (simp add: sharedMarksLoader_def)

lemma fillColumn_ok:
  assumes "materializes ih wm p (cname h)"
  shows "\<exists>c. fst (fillColumn e ih wm p (sharedMarksLoader wm p) h) = Inr c"
proof (cases "has ih (cname h)")
  case True
  with assms obtain pos where "getPositionByName ih (cname h) = Inr pos" "pos < length (index p)"
    by (auto simp: materializes_def split: sum.splits)
  with True show ?thesis by (simp add: fillColumn_index)
next
  case False
  show ?thesis
  proof (cases "is_metadata_column (cname h)")
    case True
    with False assms have
      "cname h = ''mark_number'' \<longrightarrow> int (length (index_granularity p)) \<le> INT_MAX"
      by (simp add: materializes_def mark_number_column_def getMarksCount_def)
    with True False show ?thesis
      by (auto simp: is_metadata_column_def part_name_column_def mark_number_column_def
          rows_in_granule_column_def fillColumn_part_name fillColumn_mark_number
          fillColumn_rows_in_granule)
  next
    case nm: False
    with False assms have m: "is_mark_column ih wm (cname h)" and
      lay: "isWidePart p \<or> isCompactPart p"
      by (auto simp: materializes_def)
    from m have "wm" by (simp add: is_mark_column_def)
    with lay have "isWidePart p \<or> (isCompactPart p \<and> sharedMarksLoader wm p \<noteq> None)"
      using sharedMarksLoader_compact[of wm p] by blast
    from fillMarks_ok[OF this] m show ?thesis by (simp add: fillColumn_mark)
  qed
qed








lemma Chunk_Inr:
  "Chunk cols n = Inr c \<Longrightarrow>
     c = \<lparr>chunk_columns = cols, chunk_num_rows = n\<rparr> \<and> (\<forall>x\<in>set cols. length x = n)"
  by (auto simp: Chunk_def list_all_iff split: if_splits)


lemma generate_end:
  "length (data_parts s) \<le> part_index s \<Longrightarrow> generate e s = (Inr (empty_chunk, s), [])"
  by (simp add: generate_def)




lemmas sample_defs =
  sample_env_def sample_P1_def sample_P2_def sample_P3_def sample_index_header_def
  mark_type_def part_name_column_def mark_number_column_def rows_in_granule_column_def

lemma splitName_id_mark [simp]: "splitName ''id.mark'' True = (''id'', ''mark'')"
  by (simp add: splitName_def)

lemma splitName_w_mark [simp]: "splitName ''w.mark'' True = (''w'', ''mark'')"
  by (simp add: splitName_def)


subsection \<open>Metadata columns\<close>

lemma generate_Inr:
  assumes "part_index s < length (data_parts s)" and "fst (generate e s) = Inr (c, s')"
  shows "is_chunk_of e (header s) (index_header s) (with_marks s) (data_parts s ! part_index s) c
         \<and> s' = s\<lparr>part_index := part_index s + 1\<rparr>
         \<and> (\<forall>col\<in>set (chunk_columns c).
               length col = getMarksCount (index_granularity (data_parts s ! part_index s)))"
proof -
  let ?p = "data_parts s ! part_index s"
  let ?l = "sharedMarksLoader (with_marks s) ?p"
  let ?n = "getMarksCount (index_granularity ?p)"
  obtain r ev where
    f: "fillColumns e (index_header s) (with_marks s) ?p ?l (header s) = (r, ev)"
    by (cases "fillColumns e (index_header s) (with_marks s) ?p ?l (header s)")
  with assms obtain cs where r: "r = Inr cs"
    by (cases r) (auto simp: generate_def Let_def)
  with f have "fst (fillColumns e (index_header s) (with_marks s) ?p ?l (header s)) = Inr cs"
    by simp
  from fillColumns_Inr[OF this] have
    la: "list_all2 (\<lambda>col h. fst (fillColumn e (index_header s) (with_marks s) ?p ?l h) = Inr col)
           cs (header s)" .
  from assms f r have ch: "Chunk cs ?n = Inr c" and
    s': "s' = s\<lparr>part_index := part_index s + 1\<rparr>"
    by (auto simp: generate_def Let_def split: sum.splits)
  from Chunk_Inr[OF ch] have
    c: "c = \<lparr>chunk_columns = cs, chunk_num_rows = ?n\<rparr>" and
    rows: "\<forall>x\<in>set cs. length x = ?n"
    by simp_all
  from la c have "is_chunk_of e (header s) (index_header s) (with_marks s) ?p c"
    by (simp add: is_chunk_of_def list_all2_lengthD)
  with s' c rows show ?thesis by simp
qed

text \<open>
  In every chunk \<^verbatim>\<open>generate\<close> returns for a part, at every row \<open>i\<close> below the part's mark
  count, the \<^verbatim>\<open>mark_number\<close> column holds \<open>i\<close>, the \<^verbatim>\<open>rows_in_granule\<close> column holds the
  row count the index granularity gives for mark \<open>i\<close>, and the \<^verbatim>\<open>part_name\<close> column holds
  the name of the part, so it is constant within the chunk. The three names denote these
  columns unless the index header holds a column of the same name, which \<^verbatim>\<open>generate\<close>
  looks up first.
\<close>

lemma metadata_column_values:
  assumes "part_index s < length (data_parts s)"
    and "fst (generate e s) = Inr (c, s')"
    and "pos < length (header s)"
    and "\<not> has (index_header s) (cname (header s ! pos))"
    and "i < getMarksCount (index_granularity (data_parts s ! part_index s))"
  shows "(cname (header s ! pos) = cname mark_number_column \<longrightarrow>
            chunk_columns c ! pos ! i = UInt64 (of_nat i) \<and> unat (of_nat i :: 64 word) = i)
       \<and> (cname (header s ! pos) = cname rows_in_granule_column \<longrightarrow>
            chunk_columns c ! pos ! i
              = UInt64 (getMarkRows (index_granularity (data_parts s ! part_index s)) i))
       \<and> (cname (header s ! pos) = cname part_name_column \<longrightarrow>
            chunk_columns c ! pos ! i = Str (name (data_parts s ! part_index s)))"
proof -
  let ?p = "data_parts s ! part_index s"
  let ?h = "header s ! pos"
  from generate_Inr[OF assms(1,2)] assms(3) have
    col: "fst (fillColumn e (index_header s) (with_marks s) ?p
                 (sharedMarksLoader (with_marks s) ?p) ?h) = Inr (chunk_columns c ! pos)"
    by (simp add: is_chunk_of_def list_all2_conv_all_nth)
  from assms(5) have i: "i < length (index_granularity ?p)" by (simp add: getMarksCount_def)
  have "chunk_columns c ! pos ! i = UInt64 (of_nat i) \<and> unat (of_nat i :: 64 word) = i"
    if n: "cname ?h = cname mark_number_column"
  proof -
    have b: "int (length (index_granularity ?p)) \<le> INT_MAX"
    proof (rule ccontr)
      assume "\<not> int (length (index_granularity ?p)) \<le> INT_MAX"
      then have "INT_MAX < int (length (index_granularity ?p))" by simp
      with col n assms(4) show False
        by (simp add: mark_number_column_def fillColumn_mark_number_overflow)
    qed
    then have "chunk_columns c ! pos
                 = map (\<lambda>i. UInt64 (of_nat i)) [0..<length (index_granularity ?p)]"
      using col n assms(4) by (simp add: mark_number_column_def fillColumn_mark_number)
    with i have v: "chunk_columns c ! pos ! i = UInt64 (of_nat i)" by simp
    from b i have "i < 2 ^ 64" by (simp add: INT_MAX_def)
    then have "unat (of_nat i :: 64 word) = i" by (simp add: unat_of_nat)
    with v show ?thesis by simp
  qed
  moreover have "chunk_columns c ! pos ! i = UInt64 (getMarkRows (index_granularity ?p) i)"
    if n: "cname ?h = cname rows_in_granule_column"
  proof -
    have "chunk_columns c ! pos
            = map (\<lambda>i. UInt64 (index_granularity ?p ! i)) [0..<length (index_granularity ?p)]"
      using col n assms(4) by (simp add: rows_in_granule_column_def fillColumn_rows_in_granule)
    with i show ?thesis by (simp add: getMarkRows_def)
  qed
  moreover have "chunk_columns c ! pos ! i = Str (name ?p)"
    if n: "cname ?h = cname part_name_column"
  proof -
    have "chunk_columns c ! pos = replicate (length (index_granularity ?p)) (Str (name ?p))"
      using col n assms(4) by (simp add: part_name_column_def fillColumn_part_name)
    with i show ?thesis by simp
  qed
  ultimately show ?thesis by blast
qed

lemma metadata_column_values_example:
  "fst (generate sample_env sample_metadata_source)
     = Inr (\<lparr>chunk_columns = [[UInt64 0, UInt64 1, UInt64 2], [UInt64 1, UInt64 2, UInt64 1],
                               [Str ''P1'', Str ''P1'', Str ''P1'']],
             chunk_num_rows = 3\<rparr>,
            sample_metadata_source\<lparr>part_index := 1\<rparr>)"
proof -
  have n: "int (length (index_granularity sample_P1)) \<le> INT_MAX"
    "length (index_granularity sample_P1) = 3"
    by (simp_all add: INT_MAX_def sample_defs)
  have u: "[0..<3] = [0, 1, 2]" by (simp add: upt_rec)
  have h: "\<not> has sample_index_header ''mark_number''"
    "\<not> has sample_index_header ''rows_in_granule''"
    "\<not> has sample_index_header ''part_name''"
    by (simp_all add: has_def sample_defs)
  have f: "fillColumn sample_env sample_index_header False sample_P1 None mark_number_column
             = (Inr [UInt64 0, UInt64 1, UInt64 2], [])"
    "fillColumn sample_env sample_index_header False sample_P1 None rows_in_granule_column
             = (Inr [UInt64 1, UInt64 2, UInt64 1], [])"
    "fillColumn sample_env sample_index_header False sample_P1 None part_name_column
             = (Inr [Str ''P1'', Str ''P1'', Str ''P1''], [])"
    using fillColumn_mark_number[where ih = sample_index_header and h = mark_number_column
        and p = sample_P1 and e = sample_env and wm = False and l = None]
      fillColumn_rows_in_granule[where ih = sample_index_header and h = rows_in_granule_column
        and p = sample_P1 and e = sample_env and wm = False and l = None]
      fillColumn_part_name[where ih = sample_index_header and h = part_name_column
        and p = sample_P1 and e = sample_env and wm = False and l = None]
      h n
    by (simp_all add: u numeral_3_eq_3 sample_defs)
  show ?thesis
    by (simp add: generate_def sample_metadata_source_def MergeTreeIndexSource_def Let_def
        sharedMarksLoader_def f Chunk_def getMarksCount_def n)
qed

text \<open>
  C2. Row \<open>i\<close> of the \<^verbatim>\<open>mark_number\<close> column is meant to hold \<open>i\<close> for every mark of every
  part, and \<open>metadata_column_values\<close> shows that it does in every chunk \<^verbatim>\<open>generate\<close>
  returns. The counter that fills the column, however, is an \<^verbatim>\<open>int\<close>: for a part with
  more than \<open>INT_MAX\<close> marks it overflows, which is undefined in the source, and no chunk
  is returned. Here the part has \<open>2147483649\<close> marks, so that row \<open>2147483648\<close> would have
  to hold a number no \<^verbatim>\<open>int\<close> holds.
\<close>

theorem mark_number_overflow:
  "generate sample_env sample_huge_source = (Inl SIGNED_INTEGER_OVERFLOW, [])"
proof -
  have h: "\<not> has sample_index_header (cname mark_number_column)"
    "cname mark_number_column = ''mark_number''"
    by (simp_all add: has_def sample_index_header_def mark_number_column_def)
  have n: "INT_MAX < int (length (index_granularity sample_huge_part))"
    by (simp add: INT_MAX_def sample_huge_part_def)
  from fillColumn_mark_number_overflow[OF h n]
  have f: "fillColumn sample_env sample_index_header False sample_huge_part None mark_number_column
             = (Inl SIGNED_INTEGER_OVERFLOW, [])" .
  show ?thesis
    by (simp add: generate_def sample_huge_source_def MergeTreeIndexSource_def Let_def
        sharedMarksLoader_def f)
qed

subsection \<open>Mark pseudo-columns\<close>

lemma ColumnNullable_create_no_nulls:
  "ColumnNullable_create c (replicate (length c) 0) = c"
  by (simp add: ColumnNullable_create_def list_eq_iff_nth_eq)

lemma ColumnNullable_create_upt:
  "ColumnNullable_create (map f [0..<n]) (replicate n 0) = map f [0..<n]"
  using ColumnNullable_create_no_nulls[of "map f [0..<n]"] by simp

lemma ColumnTuple_create_pair:
  "ColumnTuple_create [map f [0..<n], map g [0..<n]] = map (\<lambda>i. Tuple [f i, g i]) [0..<n]"
  by (simp add: ColumnTuple_create_def list_eq_iff_nth_eq)

lemma fillMarks_absent:
  assumes "locateMarks e p l n = Inr (k, False, l', ev)"
  shows "fillMarks e p l t n
           = (Inr (replicate (getMarksCount (index_granularity p)) (getDefault t)), ev)"
  using assms
  by (simp add: fillMarks_def createColumnConstWithDefaultValue_def createColumnConst_def)

lemma fillMarks_present:
  assumes "locateMarks e p l n = Inr (k, True, Some L, ev)"
  shows "fillMarks e p l t n
           = (Inr (map (\<lambda>i. Tuple [UInt64 (offset_in_compressed_file (getMark e L i k)),
                                     UInt64 (offset_in_decompressed_block (getMark e L i k))])
                     [0..<getMarksCount (index_granularity p)]),
              ev @ map (\<lambda>i. GetMark L i k) [0..<getMarksCount (index_granularity p)])"
  using assms
  by (simp add: fillMarks_def Let_def comp_def ColumnNullable_create_upt ColumnTuple_create_pair)

text \<open>
  C3. When the target column of a mark pseudo-column is absent from the part (a wide part
  with no stream name for it, or a compact part whose column list does not hold its
  unescaped name), \<^verbatim>\<open>fillMarks\<close> raises no error, creates no loader and queries none, and
  returns a column with one row per mark, each row the default value of the declared
  type. For a tuple type that default is a tuple, not a null: for the declared type of
  the mark columns it is the pair of the defaults of its two nullable elements.
\<close>

theorem absent_marks_default:
  assumes "(isWidePart p \<and> getStreamNameOrHash p n = None)
         \<or> (isCompactPart p \<and> getColumnPosition p (unescapeForFileName e n) = None)"
  shows "fillMarks e p l t n
           = (Inr (replicate (getMarksCount (index_granularity p)) (getDefault t)), [])
       \<and> getDefault (DataTypeTuple ts) \<noteq> Null
       \<and> getDefault mark_type = Tuple [Null, Null]"
proof -
  from assms have "locateMarks e p l n = Inr (0, False, l, [])"
    by (auto simp: locateMarks_def isWidePart_def isCompactPart_def)
  from fillMarks_absent[OF this] show ?thesis by (simp add: mark_type_def)
qed

theorem absent_marks_default_witness:
  "fillMarks sample_env sample_P2 (sharedMarksLoader True sample_P2) mark_type ''w''
     = (Inr [Tuple [Null, Null]], [])
   \<and> fillMarks sample_env sample_P1 None mark_type ''v''
     = (Inr [Tuple [Null, Null], Tuple [Null, Null], Tuple [Null, Null]], [])"
proof -
  have a: "(isWidePart sample_P2 \<and> getStreamNameOrHash sample_P2 ''w'' = None)
         \<or> (isCompactPart sample_P2
             \<and> getColumnPosition sample_P2 (unescapeForFileName sample_env ''w'') = None)"
    by (simp add: isCompactPart_def getColumnPosition_def sample_defs)
  have b: "(isWidePart sample_P1 \<and> getStreamNameOrHash sample_P1 ''v'' = None)
         \<or> (isCompactPart sample_P1
             \<and> getColumnPosition sample_P1 (unescapeForFileName sample_env ''v'') = None)"
    by (simp add: isWidePart_def getStreamNameOrHash_def sample_defs)
  have n: "getMarksCount (index_granularity sample_P2) = 1"
    "getMarksCount (index_granularity sample_P1) = 3"
    by (simp_all add: getMarksCount_def sample_defs)
  from absent_marks_default[OF a, of "sharedMarksLoader True sample_P2" mark_type]
    absent_marks_default[OF b, of None mark_type] n
  show ?thesis by (simp add: numeral_3_eq_3)
qed

lemma position_of_Some:
  "position_of x xs = Some k \<Longrightarrow> k < length xs \<and> xs ! k = x"
proof (induction xs arbitrary: k)
  case Nil
  then show ?case by simp
next
  case (Cons y ys)
  show ?case
  proof (cases "x = y")
    case True
    with Cons.prems show ?thesis by simp
  next
    case False
    with Cons.prems obtain j where "position_of x ys = Some j" "k = Suc j" by auto
    with Cons.IH[of j] show ?thesis by simp
  qed
qed

lemma locateMarks_wide:
  "isWidePart p \<Longrightarrow> getStreamNameOrHash p n = Some sn \<Longrightarrow>
     locateMarks e p l n
       = Inr (0, True, Some (createMarksLoader p sn 1), [CreateMarksLoader (createMarksLoader p sn 1)])"
  by (simp add: locateMarks_def)

lemma locateMarks_compact:
  "isCompactPart p \<Longrightarrow> getColumnPosition p (unescapeForFileName e n) = Some k \<Longrightarrow>
     locateMarks e p l n = Inr (k, True, l, [])"
  by (auto simp: locateMarks_def isCompactPart_def isWidePart_def)

lemma fillMarks_compact_events:
  assumes "isCompactPart p"
  shows "\<forall>ev\<in>set (snd (fillMarks e p (Some L) t n)). \<exists>i k. ev = GetMark L i k"
proof (cases "getColumnPosition p (unescapeForFileName e n)")
  case None
  with assms have "locateMarks e p (Some L) n = Inr (0, False, Some L, [])"
    by (auto simp: locateMarks_def isCompactPart_def isWidePart_def)
  from fillMarks_absent[OF this] show ?thesis by simp
next
  case (Some k)
  from fillMarks_present[OF locateMarks_compact[OF assms Some]] show ?thesis by auto
qed

lemma fillColumn_compact_events:
  assumes "isCompactPart p"
  shows "\<forall>ev\<in>set (snd (fillColumn e ih wm p (Some L) h)). \<exists>i k. ev = GetMark L i k"
  using fillMarks_compact_events[OF assms]
  by (simp add: fillColumn_def Let_def split: sum.splits)

lemma fillColumns_compact_events:
  assumes "isCompactPart p"
  shows "\<forall>ev\<in>set (snd (fillColumns e ih wm p (Some L) hs)). \<exists>i k. ev = GetMark L i k"
proof (induction hs)
  case Nil
  then show ?case by simp
next
  case (Cons h hs)
  obtain r ev where h1: "fillColumn e ih wm p (Some L) h = (r, ev)"
    by (cases "fillColumn e ih wm p (Some L) h")
  obtain r' ev' where h2: "fillColumns e ih wm p (Some L) hs = (r', ev')"
    by (cases "fillColumns e ih wm p (Some L) hs")
  from fillColumn_compact_events[OF assms, of e ih wm L h] h1
  have a: "\<forall>x\<in>set ev. \<exists>i k. x = GetMark L i k" by simp
  from Cons.IH h2 have b: "\<forall>x\<in>set ev'. \<exists>i k. x = GetMark L i k" by simp
  have "set (snd (fillColumns e ih wm p (Some L) (h # hs))) \<subseteq> set ev \<union> set ev'"
    using h1 h2 by (cases r; cases r') auto
  with a b show ?case by blast
qed

lemma generate_events:
  assumes "part_index s < length (data_parts s)"
  shows "snd (generate e s)
           = (case sharedMarksLoader (with_marks s) (data_parts s ! part_index s) of
                None \<Rightarrow> [] | Some l \<Rightarrow> [CreateMarksLoader l])
             @ snd (fillColumns e (index_header s) (with_marks s) (data_parts s ! part_index s)
                      (sharedMarksLoader (with_marks s) (data_parts s ! part_index s)) (header s))"
proof -
  obtain r ev where
    "fillColumns e (index_header s) (with_marks s) (data_parts s ! part_index s)
       (sharedMarksLoader (with_marks s) (data_parts s ! part_index s)) (header s) = (r, ev)"
    by (cases "fillColumns e (index_header s) (with_marks s) (data_parts s ! part_index s)
       (sharedMarksLoader (with_marks s) (data_parts s ! part_index s)) (header s)")
  with assms show ?thesis
    by (cases r) (simp_all add: generate_def Let_def split: sum.splits)
qed

text \<open>
  C4. For a column that has marks in the part, \<^verbatim>\<open>fillMarks\<close> returns one row per mark,
  the tuple of the two offsets of the mark the loader gives for that row, neither field
  null, and queries the loader once per row, in row order.
  In a wide part the loader is created for this column alone, over the column's stream
  name and with one column per mark, and is queried at position 0.
  In a compact part the loader is the one \<^verbatim>\<open>generate\<close> created for the part, over the
  data file and with as many columns per mark as the part has columns; it is queried at
  the position of the unescaped column name in the part's column list; and during the
  generation of the part's chunk that loader is created once and every later loader call
  is a query of it.
\<close>

theorem present_marks_loaded:
  "(isWidePart p \<and> getStreamNameOrHash p n = Some sn \<longrightarrow>
      fillMarks e p l t n
        = (Inr (map (\<lambda>i. Tuple
                  [UInt64 (offset_in_compressed_file
                     (getMark e \<lparr>loader_part = name p, prefix_name = sn, num_columns = 1\<rparr> i 0)),
                   UInt64 (offset_in_decompressed_block
                     (getMark e \<lparr>loader_part = name p, prefix_name = sn, num_columns = 1\<rparr> i 0))])
                [0..<getMarksCount (index_granularity p)]),
           CreateMarksLoader \<lparr>loader_part = name p, prefix_name = sn, num_columns = 1\<rparr>
           # map (\<lambda>i. GetMark \<lparr>loader_part = name p, prefix_name = sn, num_columns = 1\<rparr> i 0)
               [0..<getMarksCount (index_granularity p)]))
   \<and> (isCompactPart p \<and> getColumnPosition p (unescapeForFileName e n) = Some k \<longrightarrow>
        sharedMarksLoader True p
          = Some \<lparr>loader_part = name p, prefix_name = DATA_FILE_NAME,
                  num_columns = length (columns p)\<rparr>
      \<and> k < length (columns p) \<and> columns p ! k = unescapeForFileName e n
      \<and> fillMarks e p (sharedMarksLoader True p) t n
        = (Inr (map (\<lambda>i. Tuple
                  [UInt64 (offset_in_compressed_file
                     (getMark e \<lparr>loader_part = name p, prefix_name = DATA_FILE_NAME,
                                 num_columns = length (columns p)\<rparr> i k)),
                   UInt64 (offset_in_decompressed_block
                     (getMark e \<lparr>loader_part = name p, prefix_name = DATA_FILE_NAME,
                                 num_columns = length (columns p)\<rparr> i k))])
                [0..<getMarksCount (index_granularity p)]),
           map (\<lambda>i. GetMark \<lparr>loader_part = name p, prefix_name = DATA_FILE_NAME,
                              num_columns = length (columns p)\<rparr> i k)
             [0..<getMarksCount (index_granularity p)]))
   \<and> (part_index s < length (data_parts s) \<and> with_marks s
        \<and> isCompactPart (data_parts s ! part_index s) \<longrightarrow>
        (\<exists>evs. snd (generate e s)
                 = CreateMarksLoader
                     \<lparr>loader_part = name (data_parts s ! part_index s),
                      prefix_name = DATA_FILE_NAME,
                      num_columns = length (columns (data_parts s ! part_index s))\<rparr> # evs
             \<and> list_all
                 (\<lambda>ev. case ev of
                    CreateMarksLoader l' \<Rightarrow> False
                  | GetMark l' i j \<Rightarrow>
                      l' = \<lparr>loader_part = name (data_parts s ! part_index s),
                            prefix_name = DATA_FILE_NAME,
                            num_columns = length (columns (data_parts s ! part_index s))\<rparr>)
                 evs))"
proof -
  let ?Lw = "\<lparr>loader_part = name p, prefix_name = sn, num_columns = 1\<rparr>"
  let ?Lc = "\<lparr>loader_part = name p, prefix_name = DATA_FILE_NAME,
               num_columns = length (columns p)\<rparr>"
  have w: "fillMarks e p l t n
        = (Inr (map (\<lambda>i. Tuple [UInt64 (offset_in_compressed_file (getMark e ?Lw i 0)),
                   UInt64 (offset_in_decompressed_block (getMark e ?Lw i 0))])
                [0..<getMarksCount (index_granularity p)]),
           CreateMarksLoader ?Lw
           # map (\<lambda>i. GetMark ?Lw i 0) [0..<getMarksCount (index_granularity p)])"
    if "isWidePart p" "getStreamNameOrHash p n = Some sn"
    using fillMarks_present[OF locateMarks_wide[OF that], of e l t]
    by (simp add: createMarksLoader_def)
  have c: "sharedMarksLoader True p = Some ?Lc
      \<and> k < length (columns p) \<and> columns p ! k = unescapeForFileName e n
      \<and> fillMarks e p (sharedMarksLoader True p) t n
        = (Inr (map (\<lambda>i. Tuple [UInt64 (offset_in_compressed_file (getMark e ?Lc i k)),
                   UInt64 (offset_in_decompressed_block (getMark e ?Lc i k))])
                [0..<getMarksCount (index_granularity p)]),
           map (\<lambda>i. GetMark ?Lc i k) [0..<getMarksCount (index_granularity p)])"
    if cp: "isCompactPart p" and pos: "getColumnPosition p (unescapeForFileName e n) = Some k"
  proof -
    have sl: "sharedMarksLoader True p = Some ?Lc"
      using cp by (simp add: sharedMarksLoader_def createMarksLoader_def)
    from pos have "k < length (columns p) \<and> columns p ! k = unescapeForFileName e n"
      using position_of_Some[of "unescapeForFileName e n" "columns p" k]
      by (simp add: getColumnPosition_def)
    moreover from locateMarks_compact[OF cp pos, of "Some ?Lc"]
    have "locateMarks e p (Some ?Lc) n = Inr (k, True, Some ?Lc, [])" .
    from fillMarks_present[OF this, of t]
    have "fillMarks e p (Some ?Lc) t n
        = (Inr (map (\<lambda>i. Tuple [UInt64 (offset_in_compressed_file (getMark e ?Lc i k)),
                   UInt64 (offset_in_decompressed_block (getMark e ?Lc i k))])
                [0..<getMarksCount (index_granularity p)]),
           map (\<lambda>i. GetMark ?Lc i k) [0..<getMarksCount (index_granularity p)])"
      by simp
    ultimately show ?thesis using sl by simp
  qed
  let ?q = "data_parts s ! part_index s"
  let ?Lq = "\<lparr>loader_part = name ?q, prefix_name = DATA_FILE_NAME,
               num_columns = length (columns ?q)\<rparr>"
  have g: "\<exists>evs. snd (generate e s) = CreateMarksLoader ?Lq # evs
             \<and> list_all (\<lambda>ev. case ev of CreateMarksLoader l' \<Rightarrow> False
                  | GetMark l' i j \<Rightarrow> l' = ?Lq) evs"
    if lt: "part_index s < length (data_parts s)" and wm: "with_marks s"
      and cp: "isCompactPart ?q"
  proof -
    have sl: "sharedMarksLoader (with_marks s) ?q = Some ?Lq"
      using wm cp by (simp add: sharedMarksLoader_def createMarksLoader_def)
    let ?evs = "snd (fillColumns e (index_header s) (with_marks s) ?q (Some ?Lq) (header s))"
    from generate_events[OF lt, of e] sl
    have "snd (generate e s) = CreateMarksLoader ?Lq # ?evs" by simp
    moreover from fillColumns_compact_events[OF cp, of e "index_header s" "with_marks s" ?Lq "header s"]
    have "list_all (\<lambda>ev. case ev of CreateMarksLoader l' \<Rightarrow> False
                  | GetMark l' i j \<Rightarrow> l' = ?Lq) ?evs"
      by (auto simp: list_all_iff)
    ultimately show ?thesis by blast
  qed
  from w c g show ?thesis by blast
qed

theorem present_marks_loaded_witness:
  "fillMarks sample_env sample_P1 None mark_type ''id''
     = (Inr [Tuple [UInt64 0, UInt64 0], Tuple [UInt64 100, UInt64 0],
             Tuple [UInt64 200, UInt64 0]],
        [CreateMarksLoader \<lparr>loader_part = ''P1'', prefix_name = ''id'', num_columns = 1\<rparr>,
         GetMark \<lparr>loader_part = ''P1'', prefix_name = ''id'', num_columns = 1\<rparr> 0 0,
         GetMark \<lparr>loader_part = ''P1'', prefix_name = ''id'', num_columns = 1\<rparr> 1 0,
         GetMark \<lparr>loader_part = ''P1'', prefix_name = ''id'', num_columns = 1\<rparr> 2 0])
   \<and> fillMarks sample_env sample_P2 (sharedMarksLoader True sample_P2) mark_type ''v''
     = (Inr [Tuple [UInt64 1, UInt64 7]],
        [GetMark \<lparr>loader_part = ''P2'', prefix_name = ''data'', num_columns = 2\<rparr> 0 1])
   \<and> (\<exists>evs. snd (generate sample_env sample_compact_source)
         = CreateMarksLoader \<lparr>loader_part = ''P2'', prefix_name = ''data'', num_columns = 2\<rparr>
           # evs)"
proof -
  have u: "[0..<3] = [0, 1, 2]" "[0..<1] = [0]" by (simp_all add: upt_rec)
  have n: "getMarksCount (index_granularity sample_P1) = 3"
    "getMarksCount (index_granularity sample_P2) = 1"
    by (simp_all add: getMarksCount_def sample_defs)
  have w: "isWidePart sample_P1 \<and> getStreamNameOrHash sample_P1 ''id'' = Some ''id''"
    by (simp add: isWidePart_def getStreamNameOrHash_def sample_defs)
  have c: "isCompactPart sample_P2
      \<and> getColumnPosition sample_P2 (unescapeForFileName sample_env ''v'') = Some 1"
    by (simp add: isCompactPart_def getColumnPosition_def sample_defs)
  have g: "part_index sample_compact_source < length (data_parts sample_compact_source)
      \<and> with_marks sample_compact_source
      \<and> isCompactPart (data_parts sample_compact_source ! part_index sample_compact_source)"
    by (simp add: sample_compact_source_def MergeTreeIndexSource_def isCompactPart_def sample_defs)
  have q: "data_parts sample_compact_source ! part_index sample_compact_source = sample_P2"
    by (simp add: sample_compact_source_def MergeTreeIndexSource_def)
  have f: "name sample_P1 = ''P1''" "name sample_P2 = ''P2''" "length (columns sample_P2) = 2"
    by (simp_all add: sample_defs)
  have m: "getMark sample_env l i j
      = \<lparr>offset_in_compressed_file = of_nat (100 * i + j),
         offset_in_decompressed_block = of_nat (7 * j)\<rparr>" for l i j
    by (simp add: sample_env_def)
  from present_marks_loaded[where p = sample_P1 and n = "''id''" and sn = "''id''"
      and e = sample_env and l = None and t = mark_type, THEN conjunct1, THEN mp, OF w]
  have 1: "fillMarks sample_env sample_P1 None mark_type ''id''
     = (Inr [Tuple [UInt64 0, UInt64 0], Tuple [UInt64 100, UInt64 0],
             Tuple [UInt64 200, UInt64 0]],
        [CreateMarksLoader \<lparr>loader_part = ''P1'', prefix_name = ''id'', num_columns = 1\<rparr>,
         GetMark \<lparr>loader_part = ''P1'', prefix_name = ''id'', num_columns = 1\<rparr> 0 0,
         GetMark \<lparr>loader_part = ''P1'', prefix_name = ''id'', num_columns = 1\<rparr> 1 0,
         GetMark \<lparr>loader_part = ''P1'', prefix_name = ''id'', num_columns = 1\<rparr> 2 0])"
    by (simp add: n u f m)
  from present_marks_loaded[where p = sample_P2 and n = "''v''" and k = 1
      and e = sample_env and t = mark_type, THEN conjunct2, THEN conjunct1, THEN mp, OF c]
  have 2: "fillMarks sample_env sample_P2 (sharedMarksLoader True sample_P2) mark_type ''v''
     = (Inr [Tuple [UInt64 1, UInt64 7]],
        [GetMark \<lparr>loader_part = ''P2'', prefix_name = ''data'', num_columns = 2\<rparr> 0 1])"
    by (clarsimp simp: n u f m DATA_FILE_NAME_def)
  from present_marks_loaded[where e = sample_env and s = sample_compact_source,
      THEN conjunct2, THEN conjunct2, THEN mp, OF g]
  have 3: "\<exists>evs. snd (generate sample_env sample_compact_source)
         = CreateMarksLoader \<lparr>loader_part = ''P2'', prefix_name = ''data'', num_columns = 2\<rparr>
           # evs"
    by (auto simp: q f DATA_FILE_NAME_def)
  from 1 2 3 show ?thesis by simp
qed

subsection \<open>Part filtering\<close>

lemma getFilteredDataParts_where:
  "fst (getFilteredDataParts e parts (ASTSelectQuery (Some w)))
     = filter (\<lambda>p. name p \<in> set (filterBlockWithQuery e (ASTSelectQuery (Some w))
                                      (map name parts))) parts"
  by (simp add: getFilteredDataParts_def Let_def)

lemma getFilteredDataParts_cases:
  "fst (getFilteredDataParts e parts q) = parts
   \<or> (\<exists>w. q = ASTSelectQuery (Some w)
          \<and> fst (getFilteredDataParts e parts q)
              = filter (\<lambda>p. name p \<in> set (filterBlockWithQuery e q (map name parts))) parts)"
proof (cases q)
  case (ASTSelectQuery wo)
  show ?thesis
  proof (cases wo)
    case None
    with ASTSelectQuery show ?thesis by (simp add: getFilteredDataParts_def)
  next
    case (Some w)
    with ASTSelectQuery getFilteredDataParts_where[of e parts w] show ?thesis by simp
  qed
next
  case ASTOther
  then show ?thesis by (simp add: getFilteredDataParts_def)
qed

text \<open>
  C5. Whatever the query and whatever rows the filter evaluator keeps, the names of the
  parts \<^verbatim>\<open>getFilteredDataParts\<close> returns are names of the original list and the parts are
  parts of it; when the names of the original list are distinct, so are those of the
  result, and every part whose name the evaluator kept is in the result: each surviving
  part appears exactly once. A query that is not a select query, or has no \<^verbatim>\<open>WHERE\<close>,
  gets the original list back and no block of part names is built. When the evaluator
  keeps no row the result is the empty list; the function has no error result.
\<close>

theorem filter_narrows:
  "set (map name (fst (getFilteredDataParts e parts q))) \<subseteq> set (map name parts)
   \<and> set (fst (getFilteredDataParts e parts q)) \<subseteq> set parts
   \<and> (distinct (map name parts) \<longrightarrow>
        distinct (map name (fst (getFilteredDataParts e parts q))))
   \<and> (\<forall>p\<in>set parts.
        name p \<in> set (filterBlockWithQuery e (ASTSelectQuery (Some w)) (map name parts)) \<longrightarrow>
        p \<in> set (fst (getFilteredDataParts e parts (ASTSelectQuery (Some w)))))
   \<and> getFilteredDataParts e parts (ASTSelectQuery None) = (parts, [])
   \<and> getFilteredDataParts e parts ASTOther = (parts, [])
   \<and> (filterBlockWithQuery e (ASTSelectQuery (Some w)) (map name parts) = [] \<longrightarrow>
        getFilteredDataParts e parts (ASTSelectQuery (Some w)) = ([], [map name parts]))"
proof -
  let ?r = "fst (getFilteredDataParts e parts q)"
  from getFilteredDataParts_cases[of e parts q]
  obtain P where r: "?r = filter P parts"
  proof
    assume "?r = parts"
    then have "?r = filter (\<lambda>p. True) parts" by simp
    then show ?thesis by (rule that)
  next
    assume "\<exists>w. q = ASTSelectQuery (Some w)
          \<and> ?r = filter (\<lambda>p. name p \<in> set (filterBlockWithQuery e q (map name parts))) parts"
    then show ?thesis using that by blast
  qed
  have 1: "set (map name ?r) \<subseteq> set (map name parts)" unfolding r by auto
  have 2: "set ?r \<subseteq> set parts" unfolding r by auto
  have 3: "distinct (map name ?r)" if "distinct (map name parts)"
    unfolding r using that by (rule distinct_map_filter)
  have 4: "\<forall>p\<in>set parts.
        name p \<in> set (filterBlockWithQuery e (ASTSelectQuery (Some w)) (map name parts)) \<longrightarrow>
        p \<in> set (fst (getFilteredDataParts e parts (ASTSelectQuery (Some w))))"
    by (simp add: getFilteredDataParts_where)
  have 5: "getFilteredDataParts e parts (ASTSelectQuery None) = (parts, [])"
    "getFilteredDataParts e parts ASTOther = (parts, [])"
    by (simp_all add: getFilteredDataParts_def)
  have 6: "getFilteredDataParts e parts (ASTSelectQuery (Some w)) = ([], [map name parts])"
    if "filterBlockWithQuery e (ASTSelectQuery (Some w)) (map name parts) = []"
    using that by (simp add: getFilteredDataParts_def)
  from 1 2 3 4 5 6 show ?thesis by blast
qed

theorem filter_narrows_witness:
  "distinct (map name (fst (getFilteredDataParts sample_env [sample_P1, sample_P2]
                              (ASTSelectQuery (Some ''part_name = P2'')))))
   \<and> sample_P2 \<in> set (fst (getFilteredDataParts sample_env [sample_P1, sample_P2]
                              (ASTSelectQuery (Some ''part_name = P2''))))
   \<and> getFilteredDataParts sample_env [sample_P1] (ASTSelectQuery (Some ''part_name = P2''))
       = ([], [[''P1'']])"
proof -
  have f: "name sample_P1 = ''P1''" "name sample_P2 = ''P2''" by (simp_all add: sample_defs)
  have k: "filterBlockWithQuery sample_env q ns = filter (\<lambda>n. n = ''P2'') ns" for q ns
    by (simp add: sample_env_def)
  note T = filter_narrows[where e = sample_env and parts = "[sample_P1, sample_P2]"
      and q = "ASTSelectQuery (Some ''part_name = P2'')" and w = "''part_name = P2''"]
  note U = filter_narrows[where e = sample_env and parts = "[sample_P1]"
      and w = "''part_name = P2''"]
  have d: "distinct (map name [sample_P1, sample_P2])" by (simp add: f)
  from T[THEN conjunct2, THEN conjunct2, THEN conjunct1, THEN mp, OF d]
  have 1: "distinct (map name (fst (getFilteredDataParts sample_env [sample_P1, sample_P2]
                              (ASTSelectQuery (Some ''part_name = P2'')))))" .
  from T[THEN conjunct2, THEN conjunct2, THEN conjunct2, THEN conjunct1]
  have 2: "sample_P2 \<in> set (fst (getFilteredDataParts sample_env [sample_P1, sample_P2]
                              (ASTSelectQuery (Some ''part_name = P2''))))"
    by (simp add: f k)
  have "filterBlockWithQuery sample_env (ASTSelectQuery (Some ''part_name = P2''))
          (map name [sample_P1]) = []"
    by (simp add: f k)
  from U[THEN conjunct2, THEN conjunct2, THEN conjunct2, THEN conjunct2, THEN conjunct2,
      THEN conjunct2, THEN mp, OF this]
  have 3: "getFilteredDataParts sample_env [sample_P1] (ASTSelectQuery (Some ''part_name = P2''))
       = ([], [[''P1'']])"
    by (simp add: f)
  from 1 2 3 show ?thesis by simp
qed

text \<open>
  C10. For every query, the list \<^verbatim>\<open>getFilteredDataParts\<close> returns keeps the relative order
  of the original list: with a \<^verbatim>\<open>WHERE\<close> it is the original list scanned in order, keeping
  the parts whose names are among the rows the evaluator kept.
\<close>

theorem filter_keeps_order:
  "subseq (fst (getFilteredDataParts e parts q)) parts
   \<and> fst (getFilteredDataParts e parts (ASTSelectQuery (Some w)))
       = filter (\<lambda>p. name p \<in> set (filterBlockWithQuery e (ASTSelectQuery (Some w))
                                        (map name parts))) parts"
proof -
  from getFilteredDataParts_cases[of e parts q]
  have "subseq (fst (getFilteredDataParts e parts q)) parts"
    by (auto simp: subseq_filter_left)
  then show ?thesis by (simp add: getFilteredDataParts_where)
qed

theorem filter_keeps_order_witness:
  "fst (getFilteredDataParts sample_env [sample_P1, sample_P2, sample_P3]
          (ASTSelectQuery (Some ''part_name = P2''))) = [sample_P2]
   \<and> subseq [sample_P2] [sample_P1, sample_P2, sample_P3]"
proof -
  have f: "name sample_P1 = ''P1''" "name sample_P2 = ''P2''" "name sample_P3 = ''P3''"
    by (simp_all add: sample_defs)
  have k: "filterBlockWithQuery sample_env q ns = filter (\<lambda>n. n = ''P2'') ns" for q ns
    by (simp add: sample_env_def)
  note T = filter_keeps_order[of sample_env "[sample_P1, sample_P2, sample_P3]"
      "ASTSelectQuery (Some ''part_name = P2'')" "''part_name = P2''"]
  from T[THEN conjunct2]
  have 1: "fst (getFilteredDataParts sample_env [sample_P1, sample_P2, sample_P3]
          (ASTSelectQuery (Some ''part_name = P2''))) = [sample_P2]"
    by (simp add: f k)
  with T[THEN conjunct1] show ?thesis by simp
qed

subsection \<open>Errors\<close>


lemma fillColumns_first_error:
  assumes "\<forall>x\<in>set pre. \<exists>c. fst (fillColumn e ih wm p l x) = Inr c"
    and "fst (fillColumn e ih wm p l h) = Inl err"
  shows "fst (fillColumns e ih wm p l (pre @ h # post)) = Inl err"
  using assms(1)
proof (induction pre)
  case Nil
  obtain ev where "fillColumn e ih wm p l h = (Inl err, ev)"
    using assms(2) by (cases "fillColumn e ih wm p l h") simp
  then show ?case by simp
next
  case (Cons x pre)
  from Cons.prems obtain c ev where h1: "fillColumn e ih wm p l x = (Inr c, ev)"
    by (cases "fillColumn e ih wm p l x") auto
  from Cons have "fst (fillColumns e ih wm p l (pre @ h # post)) = Inl err" by simp
  then obtain ev' where "fillColumns e ih wm p l (pre @ h # post) = (Inl err, ev')"
    by (cases "fillColumns e ih wm p l (pre @ h # post)") simp
  with h1 show ?case by simp
qed

lemma fillColumns_some_error:
  assumes "\<exists>h\<in>set hs. \<exists>err. fst (fillColumn e ih wm p l h) = Inl err"
  shows "\<exists>err. fst (fillColumns e ih wm p l hs) = Inl err"
  using assms
proof (induction hs)
  case Nil
  then show ?case by simp
next
  case (Cons h hs)
  obtain r ev where h1: "fillColumn e ih wm p l h = (r, ev)"
    by (cases "fillColumn e ih wm p l h")
  obtain r' ev' where h2: "fillColumns e ih wm p l hs = (r', ev')"
    by (cases "fillColumns e ih wm p l hs")
  show ?case
  proof (cases r)
    case (Inl a)
    with h1 show ?thesis by simp
  next
    case (Inr c)
    with Cons.prems h1 have "\<exists>h\<in>set hs. \<exists>err. fst (fillColumn e ih wm p l h) = Inl err"
      by auto
    with Cons.IH h2 obtain err where "r' = Inl err" by auto
    with h1 h2 Inr show ?thesis by simp
  qed
qed

lemma generate_fill_error:
  assumes "part_index s < length (data_parts s)"
    and "fst (fillColumns e (index_header s) (with_marks s) (data_parts s ! part_index s)
                (sharedMarksLoader (with_marks s) (data_parts s ! part_index s)) (header s))
           = Inl err"
  shows "fst (generate e s) = Inl err"
proof -
  from assms(2) obtain ev where
    "fillColumns e (index_header s) (with_marks s) (data_parts s ! part_index s)
       (sharedMarksLoader (with_marks s) (data_parts s ! part_index s)) (header s) = (Inl err, ev)"
    by (cases "fillColumns e (index_header s) (with_marks s) (data_parts s ! part_index s)
       (sharedMarksLoader (with_marks s) (data_parts s ! part_index s)) (header s)") simp
  with assms(1) show ?thesis by (simp add: generate_def Let_def)
qed




lemma fillMarks_unsupported:
  "\<not> isWidePart p \<Longrightarrow> \<not> isCompactPart p \<Longrightarrow>
     fillMarks e p l t n = (Inl (NOT_IMPLEMENTED (getTypeName p)), [])"
  by (simp add: fillMarks_def locateMarks_def)




subsection \<open>Resolution of the requested names\<close>

lemma find_cname_Some:
  "has key n \<Longrightarrow> \<exists>c. find (\<lambda>c. cname c = n) key = Some c \<and> cname c = n"
  by (induction key) (auto simp: has_def)

lemma find_cname_None:
  "\<not> has key n \<Longrightarrow> find (\<lambda>c. cname c = n) key = None"
  by (auto simp: has_def find_None_iff)

lemma resolveColumn_known:
  assumes "known_column key wm n"
  shows "\<exists>c. resolveColumn key wm n = Inr c \<and> cname c = n"
proof (cases "has key n")
  case True
  from find_cname_Some[OF True] show ?thesis by (auto simp: resolveColumn_def)
next
  case False
  with assms have "is_metadata_column n \<or> (wm \<and> snd (splitName n True) = ''mark'')"
    by (auto simp: known_column_def is_mark_column_def)
  with find_cname_None[OF False] show ?thesis
    by (auto simp: resolveColumn_def is_metadata_column_def)
qed

lemma resolveColumn_unknown:
  assumes "\<not> known_column key wm n"
  shows "resolveColumn key wm n = Inl (UNKNOWN_COLUMN n)"
proof -
  from assms have nh: "\<not> has key n" and nm: "\<not> is_metadata_column n"
    and nk: "\<not> (wm \<and> snd (splitName n True) = ''mark'')"
    by (auto simp: known_column_def is_mark_column_def)
  from find_cname_None[OF nh] nm nk show ?thesis
    by (auto simp: resolveColumn_def is_metadata_column_def)
qed

lemma getSampleBlockForColumns_unknown:
  "find (\<lambda>x. \<not> known_column (key_sample_block st) (storage_with_marks st) x) ns = Some m \<Longrightarrow>
     getSampleBlockForColumns st ns = Inl (UNKNOWN_COLUMN m)"
proof (induction ns)
  case Nil
  then show ?case by simp
next
  case (Cons n ns)
  show ?case
  proof (cases "known_column (key_sample_block st) (storage_with_marks st) n")
    case True
    from resolveColumn_known[OF True] obtain c where
      "resolveColumn (key_sample_block st) (storage_with_marks st) n = Inr c" by blast
    moreover from Cons True have "getSampleBlockForColumns st ns = Inl (UNKNOWN_COLUMN m)"
      by simp
    ultimately show ?thesis by simp
  next
    case False
    with Cons.prems have "m = n" by simp
    with resolveColumn_unknown[OF False] show ?thesis by simp
  qed
qed

lemma getSampleBlockForColumns_known:
  "\<forall>n\<in>set ns. known_column (key_sample_block st) (storage_with_marks st) n \<Longrightarrow>
     \<exists>hdr. getSampleBlockForColumns st ns = Inr hdr \<and> map cname hdr = ns"
proof (induction ns)
  case Nil
  then show ?case by simp
next
  case (Cons n ns)
  from Cons.prems have "known_column (key_sample_block st) (storage_with_marks st) n" by simp
  from resolveColumn_known[OF this] obtain c where
    c: "resolveColumn (key_sample_block st) (storage_with_marks st) n = Inr c" "cname c = n"
    by blast
  from Cons obtain hdr where "getSampleBlockForColumns st ns = Inr hdr" "map cname hdr = ns"
    by auto
  with c show ?case by simp
qed

lemma read_known:
  assumes "\<forall>n\<in>set ns. known_column (key_sample_block st) (storage_with_marks st) n"
    and "checkAccess e (columns_from_storage e st ns)"
  shows "\<exists>hdr. read e st ns q
                 = Inr (MergeTreeIndexSource hdr (key_sample_block st)
                          (fst (getFilteredDataParts e (storage_data_parts st) q))
                          (storage_with_marks st))
              \<and> map cname hdr = ns"
proof -
  from getSampleBlockForColumns_known[OF assms(1)] obtain hdr where
    h: "getSampleBlockForColumns st ns = Inr hdr" "map cname hdr = ns" by blast
  with assms(2) have "read e st ns q
                 = Inr (MergeTreeIndexSource hdr (key_sample_block st)
                          (fst (getFilteredDataParts e (storage_data_parts st) q))
                          (storage_with_marks st))"
    by (simp add: read_def)
  with h(2) show ?thesis by blast
qed

lemma read_unknown:
  assumes "find (\<lambda>x. \<not> known_column (key_sample_block st) (storage_with_marks st) x) ns = Some m"
  shows "read e st ns q
           = Inl (if checkAccess e (columns_from_storage e st ns)
                  then UNKNOWN_COLUMN m else ACCESS_DENIED)"
  using getSampleBlockForColumns_unknown[OF assms] by (simp add: read_def)

text \<open>
  The source \<^verbatim>\<open>read\<close> builds holds resolved names only, so the unknown-column check of
  \<^verbatim>\<open>generate\<close> is not reached from a read.
\<close>

lemma read_header_known:
  assumes "read e st ns q = Inr s"
  shows "\<forall>h\<in>set (header s). known_column (index_header s) (with_marks s) (cname h)"
proof -
  let ?P = "\<lambda>x. \<not> known_column (key_sample_block st) (storage_with_marks st) x"
  have none: "find ?P ns = None"
  proof (cases "find ?P ns")
    case None
    then show ?thesis .
  next
    case (Some m)
    from read_unknown[OF Some, of e q] assms show ?thesis by simp
  qed
  then have allk: "\<forall>n\<in>set ns. known_column (key_sample_block st) (storage_with_marks st) n"
    by (auto simp: find_None_iff)
  from assms have acc: "checkAccess e (columns_from_storage e st ns)"
    by (auto simp: read_def split: if_splits)
  from read_known[OF allk acc, of q] assms obtain hdr where
    s: "s = MergeTreeIndexSource hdr (key_sample_block st)
              (fst (getFilteredDataParts e (storage_data_parts st) q)) (storage_with_marks st)"
    and n: "map cname hdr = ns"
    by auto
  from n allk have "\<forall>h\<in>set hdr. known_column (key_sample_block st) (storage_with_marks st) (cname h)"
    by auto
  with s show ?thesis by (simp add: MergeTreeIndexSource_def)
qed

lemma pulls_empty:
  "pulls e k (MergeTreeIndexSource hdr ih [] wm)
     = (Inr (replicate k empty_chunk, MergeTreeIndexSource hdr ih [] wm), [])"
proof (induction k)
  case 0
  then show ?case by simp
next
  case (Suc k)
  have "generate e (MergeTreeIndexSource hdr ih [] wm)
          = (Inr (empty_chunk, MergeTreeIndexSource hdr ih [] wm), [])"
    by (rule generate_end) (simp add: MergeTreeIndexSource_def)
  with Suc show ?case by simp
qed

text \<open>
  C6. A read that requests a name outside the known ones (the primary-key components,
  the three metadata names and, with marks enabled, the names whose last component is
  \<open>mark\<close>) fails in \<^verbatim>\<open>read\<close>, before the source is built: no chunk is emitted and no loader
  call is made. When the access check passes, the error is the unknown-column error and
  names the first such name of the request; otherwise the access check, which comes
  first, has refused the read.
\<close>

theorem unknown_column_fails:
  assumes "n \<in> set column_names"
    and "\<not> known_column (key_sample_block st) (storage_with_marks st) n"
  shows "\<exists>m. find (\<lambda>x. \<not> known_column (key_sample_block st) (storage_with_marks st) x)
               column_names = Some m
           \<and> read_and_pull e st column_names q k
               = (Inl (if checkAccess e (columns_from_storage e st column_names)
                       then UNKNOWN_COLUMN m else ACCESS_DENIED), [])"
proof -
  let ?P = "\<lambda>x. \<not> known_column (key_sample_block st) (storage_with_marks st) x"
  from assms have "find ?P column_names \<noteq> None" by (auto simp: find_None_iff)
  then obtain m where m: "find ?P column_names = Some m" by auto
  from read_unknown[OF m, of e q] have
    "read_and_pull e st column_names q k
       = (Inl (if checkAccess e (columns_from_storage e st column_names)
               then UNKNOWN_COLUMN m else ACCESS_DENIED), [])"
    by (simp add: read_and_pull_def)
  with m show ?thesis by blast
qed

theorem unknown_column_fails_witness:
  "read_and_pull sample_env sample_storage [''id'', ''bogus'', ''mark_number'', ''nope'']
     (ASTSelectQuery None) 2
     = (Inl (UNKNOWN_COLUMN ''bogus''), [])"
proof -
  have sp: "splitName ''bogus'' True = (''bogus'', [])" "splitName ''nope'' True = (''nope'', [])"
    by (simp_all add: splitName_def)
  have kn: "known_column sample_index_header True ''id''"
    "known_column sample_index_header True ''mark_number''"
    "\<not> known_column sample_index_header True ''bogus''"
    "\<not> known_column sample_index_header True ''nope''"
    by (simp_all add: known_column_def has_def is_metadata_column_def is_mark_column_def sp
        sample_defs)
  have st: "key_sample_block sample_storage = sample_index_header"
    "storage_with_marks sample_storage = True"
    by (simp_all add: sample_storage_def)
  have a: "''bogus'' \<in> set [''id'', ''bogus'', ''mark_number'', ''nope'']" by simp
  have b: "\<not> known_column (key_sample_block sample_storage) (storage_with_marks sample_storage)
               ''bogus''"
    by (simp add: st kn)
  have acc: "checkAccess sample_env names" for names by (simp add: sample_env_def)
  from unknown_column_fails[OF a b, of sample_env "ASTSelectQuery None" 2]
  show ?thesis by (simp add: st kn acc)
qed

text \<open>
  C8, as stated, fails: over an empty part list a read that requests a name resolving to
  no known kind fails at the resolution of the names.
\<close>

theorem no_parts_counterexample:
  "storage_data_parts sample_empty_storage = []
   \<and> \<not> known_column (key_sample_block sample_empty_storage)
         (storage_with_marks sample_empty_storage) ''bogus''
   \<and> read_and_pull sample_env sample_empty_storage [''bogus''] (ASTSelectQuery None) 1
       = (Inl (UNKNOWN_COLUMN ''bogus''), [])"
proof -
  have sp: "splitName ''bogus'' True = (''bogus'', [])" by (simp add: splitName_def)
  have st: "key_sample_block sample_empty_storage = sample_index_header"
    "storage_with_marks sample_empty_storage = True"
    "storage_data_parts sample_empty_storage = []"
    by (simp_all add: sample_empty_storage_def)
  have kn: "\<not> known_column sample_index_header True ''bogus''"
    by (simp add: known_column_def has_def is_metadata_column_def is_mark_column_def sp
        sample_defs)
  have "find (\<lambda>x. \<not> known_column (key_sample_block sample_empty_storage)
                      (storage_with_marks sample_empty_storage) x) [''bogus''] = Some ''bogus''"
    by (simp add: st kn)
  from read_unknown[OF this, of sample_env "ASTSelectQuery None"]
  have "read_and_pull sample_env sample_empty_storage [''bogus''] (ASTSelectQuery None) 1
       = (Inl (UNKNOWN_COLUMN ''bogus''), [])"
    by (simp add: read_and_pull_def sample_env_def)
  with st kn show ?thesis by simp
qed

text \<open>
  C8, amended. When every requested name resolves and the access check passes, a read
  over an empty or fully filtered-out part list raises no error and emits no chunk:
  every call of \<^verbatim>\<open>generate\<close> returns the empty chunk that ends the stream, and no loader
  call is made. \<^verbatim>\<open>generate\<close> itself inspects no name of its header when the part list is
  empty.
\<close>

theorem no_parts_no_error:
  assumes "\<forall>n\<in>set column_names. known_column (key_sample_block st) (storage_with_marks st) n"
    and "checkAccess e (columns_from_storage e st column_names)"
    and "fst (getFilteredDataParts e (storage_data_parts st) q) = []"
  shows "read_and_pull e st column_names q k = (Inr (replicate k empty_chunk), [])
       \<and> generate e (MergeTreeIndexSource hdr ih [] wm)
           = (Inr (empty_chunk, MergeTreeIndexSource hdr ih [] wm), [])"
proof -
  from read_known[OF assms(1,2), of q] assms(3) obtain hdr' where
    "read e st column_names q
       = Inr (MergeTreeIndexSource hdr' (key_sample_block st) [] (storage_with_marks st))"
    by auto
  then have 1: "read_and_pull e st column_names q k = (Inr (replicate k empty_chunk), [])"
    by (simp add: read_and_pull_def pulls_empty)
  have 2: "generate e (MergeTreeIndexSource hdr ih [] wm)
           = (Inr (empty_chunk, MergeTreeIndexSource hdr ih [] wm), [])"
    by (rule generate_end) (simp add: MergeTreeIndexSource_def)
  from 1 2 show ?thesis by simp
qed

theorem no_parts_no_error_witness:
  "read_and_pull sample_env sample_single_storage [''id'', ''v.mark'']
     (ASTSelectQuery (Some ''part_name = P2'')) 3
     = (Inr [empty_chunk, empty_chunk, empty_chunk], [])"
proof -
  have sp: "splitName ''v.mark'' True = (''v'', ''mark'')" by (simp add: splitName_def)
  have st: "key_sample_block sample_single_storage = sample_index_header"
    "storage_with_marks sample_single_storage = True"
    "storage_data_parts sample_single_storage = [sample_P1]"
    by (simp_all add: sample_single_storage_def)
  have a: "\<forall>n\<in>set [''id'', ''v.mark''].
             known_column (key_sample_block sample_single_storage)
               (storage_with_marks sample_single_storage) n"
    by (simp add: st known_column_def has_def is_metadata_column_def is_mark_column_def sp
        sample_defs)
  have b: "checkAccess sample_env
             (columns_from_storage sample_env sample_single_storage [''id'', ''v.mark''])"
    by (simp add: sample_env_def)
  have c: "fst (getFilteredDataParts sample_env (storage_data_parts sample_single_storage)
                  (ASTSelectQuery (Some ''part_name = P2''))) = []"
    by (simp add: st getFilteredDataParts_def sample_defs)
  from no_parts_no_error[OF a b c, of 3, THEN conjunct1]
  show ?thesis by (simp add: numeral_3_eq_3)
qed

subsection \<open>Unsupported layouts\<close>

text \<open>
  C7, as stated, fails: a part that is neither wide nor compact is read without error
  when no mark pseudo-column is requested.
\<close>

theorem unsupported_layout_counterexample:
  "\<not> isWidePart sample_P3 \<and> \<not> isCompactPart sample_P3
   \<and> generate sample_env sample_unsupported_source
     = (Inr (\<lparr>chunk_columns = [[UInt64 50, UInt64 60], [Str ''P3'', Str ''P3'']],
              chunk_num_rows = 2\<rparr>,
             sample_unsupported_source\<lparr>part_index := 1\<rparr>), [])"
  by (simp add: generate_def sample_unsupported_source_def MergeTreeIndexSource_def Let_def
      sharedMarksLoader_def fillColumn_def has_def getPositionByName_def getMarksCount_def
      createColumnConst_def isWidePart_def isCompactPart_def numeral_2_eq_2 Chunk_def
      sample_defs)

lemma fillColumn_unsupported_events:
  "\<not> isWidePart p \<Longrightarrow> \<not> isCompactPart p \<Longrightarrow> snd (fillColumn e ih wm p l h) = []"
  by (simp add: fillColumn_def Let_def fillMarks_unsupported split: sum.splits)

lemma fillColumns_unsupported_events:
  assumes "\<not> isWidePart p" and "\<not> isCompactPart p"
  shows "snd (fillColumns e ih wm p l hs) = []"
proof (induction hs)
  case Nil
  then show ?case by simp
next
  case (Cons h hs)
  obtain r ev where h1: "fillColumn e ih wm p l h = (r, ev)"
    by (cases "fillColumn e ih wm p l h")
  obtain r' ev' where h2: "fillColumns e ih wm p l hs = (r', ev')"
    by (cases "fillColumns e ih wm p l hs")
  from fillColumn_unsupported_events[OF assms, of e ih wm l h] h1 have "ev = []" by simp
  moreover from Cons.IH h2 have "ev' = []" by simp
  ultimately show ?case using h1 h2 by (cases r; cases r') simp_all
qed

text \<open>
  C7, amended. For a part that is neither wide nor compact, a read that requests a mark
  pseudo-column fails with the not-implemented error naming the layout when \<^verbatim>\<open>generate\<close>
  reaches the part, provided the names requested before the first mark pseudo-column
  materialise for the part; no loader call is made.
\<close>

theorem unsupported_layout_fails:
  assumes "part_index s < length (data_parts s)"
    and "\<not> isWidePart (data_parts s ! part_index s)"
    and "\<not> isCompactPart (data_parts s ! part_index s)"
    and "header s = pre @ h # post"
    and "is_mark_column (index_header s) (with_marks s) (cname h)"
    and "\<forall>x\<in>set pre. materializes (index_header s) (with_marks s)
                         (data_parts s ! part_index s) (cname x)"
  shows "generate e s
           = (Inl (NOT_IMPLEMENTED (getTypeName (data_parts s ! part_index s))), [])"
proof -
  let ?p = "data_parts s ! part_index s"
  let ?l = "sharedMarksLoader (with_marks s) ?p"
  have "fst (fillColumn e (index_header s) (with_marks s) ?p ?l h)
          = Inl (NOT_IMPLEMENTED (getTypeName ?p))"
    using assms(2,3,5) by (simp add: fillColumn_mark fillMarks_unsupported)
  moreover from assms(6) have
    "\<forall>x\<in>set pre. \<exists>c. fst (fillColumn e (index_header s) (with_marks s) ?p ?l x) = Inr c"
    by (simp add: fillColumn_ok)
  ultimately have "fst (fillColumns e (index_header s) (with_marks s) ?p ?l (pre @ h # post))
          = Inl (NOT_IMPLEMENTED (getTypeName ?p))"
    by (simp add: fillColumns_first_error)
  with generate_fill_error[OF assms(1), of e "NOT_IMPLEMENTED (getTypeName ?p)"] assms(4)
  have 1: "fst (generate e s) = Inl (NOT_IMPLEMENTED (getTypeName ?p))" by simp
  have "sharedMarksLoader (with_marks s) ?p = None"
    using assms(3) by (simp add: sharedMarksLoader_def)
  with generate_events[OF assms(1), of e] fillColumns_unsupported_events[OF assms(2,3)]
  have 2: "snd (generate e s) = []" by simp
  from 1 2 show ?thesis by (simp add: prod_eq_iff)
qed

theorem unsupported_layout_fails_witness:
  "generate sample_env sample_unsupported_marks_source
     = (Inl (NOT_IMPLEMENTED ''InMemory''), [])"
proof -
  have s2: "part_index sample_unsupported_marks_source
              < length (data_parts sample_unsupported_marks_source)"
    "data_parts sample_unsupported_marks_source ! part_index sample_unsupported_marks_source
       = sample_P3"
    "index_header sample_unsupported_marks_source = sample_index_header"
    "with_marks sample_unsupported_marks_source = True"
    "header sample_unsupported_marks_source
       = [\<lparr>cname = ''id'', ctype = DataTypeUInt64\<rparr>] @ \<lparr>cname = ''id.mark'', ctype = mark_type\<rparr> # []"
    by (simp_all add: sample_unsupported_marks_source_def MergeTreeIndexSource_def)
  have a: "\<not> isWidePart (data_parts sample_unsupported_marks_source
                             ! part_index sample_unsupported_marks_source)"
    "\<not> isCompactPart (data_parts sample_unsupported_marks_source
                             ! part_index sample_unsupported_marks_source)"
    by (simp_all add: s2 isWidePart_def isCompactPart_def sample_defs)
  have b: "is_mark_column (index_header sample_unsupported_marks_source)
             (with_marks sample_unsupported_marks_source)
             (cname \<lparr>cname = ''id.mark'', ctype = mark_type\<rparr>)"
    by (simp add: s2 is_mark_column_def has_def is_metadata_column_def sample_defs)
  have c: "\<forall>x\<in>set [\<lparr>cname = ''id'', ctype = DataTypeUInt64\<rparr>].
             materializes (index_header sample_unsupported_marks_source)
               (with_marks sample_unsupported_marks_source)
               (data_parts sample_unsupported_marks_source
                  ! part_index sample_unsupported_marks_source) (cname x)"
    by (simp add: s2 materializes_def has_def getPositionByName_def sample_defs)
  from unsupported_layout_fails[OF s2(1) a s2(5) b c, of sample_env]
  show ?thesis by (simp add: s2 getTypeName_def sample_defs)
qed


end
